theory Spec2Isabelle
  imports Main "HOL-Library.Multiset" "HOL-Library.Sublist"
begin

section \<open>Exceptions\<close>

text \<open>
  Modelled from the spec: the exception macros of velox/common/base/Exceptions.h are not
  among the sources. The spec separates fatal invariant failures (not implemented,
  failed checks) from everything else; \<^verbatim>\<open>VELOX_NYI\<close>, \<^verbatim>\<open>VELOX_CHECK*\<close> and
  \<^verbatim>\<open>VELOX_FAIL\<close> all raise a \<^verbatim>\<open>VeloxRuntimeError\<close>, told apart by an error code and
  carrying a message. Every other C++ exception (folly, std) is \<open>StdException\<close>: the
  handler \<^verbatim>\<open>catch (...)\<close> is the only one that sees it.
\<close>

datatype error_code = kInvalidState | kNotImplemented | kUnreachableCode

datatype exception =
    VeloxRuntimeError error_code string
  | VeloxUserError string
  | StdException string

definition VELOX_NYI :: "exception + 'a" where
  "VELOX_NYI = Inl (VeloxRuntimeError kNotImplemented [])"

definition VELOX_FAIL :: "string \<Rightarrow> exception + 'a" where
  "VELOX_FAIL msg = Inl (VeloxRuntimeError kInvalidState msg)"

section \<open>Types, values and typed expressions\<close>

text \<open>
  Modelled from the spec: the native type system is an external collaborator
  (velox/type/Type.h and the prestosql custom types are not among the sources). A type is
  one of the scalar types, one of the named logical types layered on a physical kind
  (JSON on VARCHAR, IPADDRESS and UUID on HUGEINT, IPPREFIX on ROW, the intervals and DATE
  on integers), or a complex type.
\<close>

datatype velox_type =
    BOOLEAN | TINYINT | SMALLINT | INTEGER | BIGINT | HUGEINT | REAL | DOUBLE
  | VARCHAR | VARBINARY | TIMESTAMP | UNKNOWN
  | DATE | INTERVAL_DAY_TIME | INTERVAL_YEAR_MONTH
  | JSON | IPADDRESS | IPPREFIX | UUID
  | ARRAY velox_type
  | MAP velox_type velox_type
  | ROW "(string \<times> velox_type) list"
  | FUNCTION "velox_type list" velox_type
  | OPAQUE

datatype type_kind =
    K_BOOLEAN | K_TINYINT | K_SMALLINT | K_INTEGER | K_BIGINT | K_HUGEINT | K_REAL
  | K_DOUBLE | K_VARCHAR | K_VARBINARY | K_TIMESTAMP | K_UNKNOWN
  | K_ARRAY | K_MAP | K_ROW | K_FUNCTION | K_OPAQUE

fun kind :: "velox_type \<Rightarrow> type_kind" where
  "kind BOOLEAN = K_BOOLEAN"
| "kind TINYINT = K_TINYINT"
| "kind SMALLINT = K_SMALLINT"
| "kind INTEGER = K_INTEGER"
| "kind BIGINT = K_BIGINT"
| "kind HUGEINT = K_HUGEINT"
| "kind REAL = K_REAL"
| "kind DOUBLE = K_DOUBLE"
| "kind VARCHAR = K_VARCHAR"
| "kind VARBINARY = K_VARBINARY"
| "kind TIMESTAMP = K_TIMESTAMP"
| "kind UNKNOWN = K_UNKNOWN"
| "kind DATE = K_INTEGER"
| "kind INTERVAL_DAY_TIME = K_BIGINT"
| "kind INTERVAL_YEAR_MONTH = K_INTEGER"
| "kind JSON = K_VARCHAR"
| "kind IPADDRESS = K_HUGEINT"
| "kind IPPREFIX = K_ROW"
| "kind UUID = K_HUGEINT"
| "kind (ARRAY _) = K_ARRAY"
| "kind (MAP _ _) = K_MAP"
| "kind (ROW _) = K_ROW"
| "kind (FUNCTION _ _) = K_FUNCTION"
| "kind OPAQUE = K_OPAQUE"

definition isPrimitiveType :: "velox_type \<Rightarrow> bool" where
  "isPrimitiveType t =
     (kind t \<notin> {K_ARRAY, K_MAP, K_ROW, K_FUNCTION, K_OPAQUE})"

definition isTimestamp :: "velox_type \<Rightarrow> bool" where
  "isTimestamp t = (kind t = K_TIMESTAMP)"

definition isIntervalDayTime :: "velox_type \<Rightarrow> bool" where
  "isIntervalDayTime t = (t = INTERVAL_DAY_TIME)"

definition isJsonType :: "velox_type \<Rightarrow> bool" where
  "isJsonType t = (t = JSON)"

definition isIPAddressType :: "velox_type \<Rightarrow> bool" where
  "isIPAddressType t = (t = IPADDRESS)"

definition isIPPrefixType :: "velox_type \<Rightarrow> bool" where
  "isIPPrefixType t = (t = IPPREFIX)"

definition isUuidType :: "velox_type \<Rightarrow> bool" where
  "isUuidType t = (t = UUID)"

text \<open>
  A row type is the list of its (name, type) children. The payload of a constant and of a
  cell of a row is a \<open>variant\<close>; nothing in this file computes on it, so floating-point
  cells are carried as their printed text.
\<close>

type_synonym row_type = "(string \<times> velox_type) list"

datatype variant = VNull | VBool bool | VInt int | VText string | VList "variant list"

text \<open>
  The typed-expression classes of velox/core/Expressions.h, which the compiler tells
  apart by dynamic cast. Each carries its result type first.
\<close>

datatype typed_expr =
    InputTypedExpr velox_type
  | ConstantTypedExpr velox_type variant
  | CallTypedExpr velox_type string "typed_expr list"
  | FieldAccessTypedExpr velox_type string
  | DereferenceTypedExpr velox_type typed_expr nat
  | ConcatTypedExpr velox_type "typed_expr list"
  | LambdaTypedExpr velox_type row_type typed_expr
  | CastTypedExpr velox_type typed_expr bool

fun exprType :: "typed_expr \<Rightarrow> velox_type" where
  "exprType (InputTypedExpr t) = t"
| "exprType (ConstantTypedExpr t _) = t"
| "exprType (CallTypedExpr t _ _) = t"
| "exprType (FieldAccessTypedExpr t _) = t"
| "exprType (DereferenceTypedExpr t _ _) = t"
| "exprType (ConcatTypedExpr t _) = t"
| "exprType (LambdaTypedExpr t _ _) = t"
| "exprType (CastTypedExpr t _ _) = t"

fun isConstantTypedExpr :: "typed_expr \<Rightarrow> bool" where
  "isConstantTypedExpr (ConstantTypedExpr _ _) = True"
| "isConstantTypedExpr _ = False"

subsection \<open>PrestoQueryRunner::isConstantExprSupported\<close>

definition isConstantExprSupported :: "typed_expr \<Rightarrow> bool" where
  "isConstantExprSupported expr =
     (if isConstantTypedExpr expr then
        (let t = exprType expr in
           isPrimitiveType t \<and> \<not> isTimestamp t \<and> \<not> isJsonType t \<and>
           \<not> isIntervalDayTime t \<and> \<not> isIPAddressType t \<and> \<not> isIPPrefixType t \<and>
           \<not> isUuidType t)
      else True)"

subsection \<open>PrestoQueryRunner::isSupported\<close>

text \<open>
  A function signature: the return type and the argument types, each a type signature
  (a base name with nested parameters, as in \<^verbatim>\<open>array(map(varchar, json))\<close>).
\<close>

datatype type_signature = TypeSignature string "type_signature list"

record function_signature =
  returnType :: type_signature
  argumentTypes :: "type_signature list"

definition toLower :: "char \<Rightarrow> char" where
  "toLower c =
     (case map_of (zip ''ABCDEFGHIJKLMNOPQRSTUVWXYZ'' ''abcdefghijklmnopqrstuvwxyz'') c of
        Some l \<Rightarrow> l
      | None \<Rightarrow> c)"

definition sanitizeName :: "string \<Rightarrow> string" where
  "sanitizeName s = map toLower s"

text \<open>
  Modelled from the spec: \<^verbatim>\<open>usesTypeName\<close> and \<^verbatim>\<open>usesInputTypeName\<close> live in
  FuzzerUtil, which is not among the sources. The spec says a type name matches
  case-insensitively and regardless of nesting depth; the two helpers differ, as their
  names say, in whether the return type is looked at besides the input types.
\<close>

fun containTypeName :: "type_signature \<Rightarrow> string \<Rightarrow> bool" where
  "containTypeName (TypeSignature baseName parameters) typeName =
     (sanitizeName baseName = sanitizeName typeName \<or>
      (\<exists>p \<in> set parameters. containTypeName p typeName))"

definition usesInputTypeName :: "function_signature \<Rightarrow> string \<Rightarrow> bool" where
  "usesInputTypeName signature typeName =
     (\<exists>a \<in> set (argumentTypes signature). containTypeName a typeName)"

definition usesTypeName :: "function_signature \<Rightarrow> string \<Rightarrow> bool" where
  "usesTypeName signature typeName =
     (containTypeName (returnType signature) typeName \<or>
      usesInputTypeName signature typeName)"

definition isSupported :: "function_signature \<Rightarrow> bool" where
  "isSupported signature =
     (\<not> (usesTypeName signature ''bingtile'' \<or>
         usesTypeName signature ''interval year to month'' \<or>
         usesTypeName signature ''hugeint'' \<or>
         usesTypeName signature ''hyperloglog'' \<or>
         usesTypeName signature ''tdigest'' \<or>
         usesInputTypeName signature ''json'' \<or>
         usesInputTypeName signature ''ipaddress'' \<or>
         usesInputTypeName signature ''ipprefix'' \<or>
         usesInputTypeName signature ''uuid''))"

section \<open>Text helpers\<close>

text \<open>
  \<^verbatim>\<open>operator<<\<close> and \<^verbatim>\<open>fmt::format\<close> print integers in decimal; \<^verbatim>\<open>folly::join\<close> puts a
  separator between the elements of a list; \<^verbatim>\<open>std::string::find\<close> looks for a substring.
\<close>

fun digits :: "nat \<Rightarrow> string" where
  "digits n =
     (if n < 10 then [''0123456789'' ! n]
      else digits (n div 10) @ [''0123456789'' ! (n mod 10)])"

definition to_string :: "int \<Rightarrow> string" where
  "to_string i = (if i < 0 then CHR ''-'' # digits (nat (- i)) else digits (nat i))"

fun join :: "string \<Rightarrow> string list \<Rightarrow> string" where
  "join sep [] = []"
| "join sep [x] = x"
| "join sep (x # y # ys) = x @ sep @ join sep (y # ys)"

fun str_find :: "string \<Rightarrow> string \<Rightarrow> bool" where
  "str_find [] pat = (pat = [])"
| "str_find (c # cs) pat = (prefix pat (c # cs) \<or> str_find cs pat)"

text \<open>
  Modelled from the spec: \<^verbatim>\<open>appendComma\<close> (PrestoSql.h, not among the sources) separates
  the items a loop prints, as in \<^verbatim>\<open>ARRAY['b0', 'b1']\<close>: nothing before the first item,
  a comma and a space before every later one.
\<close>

definition appendComma :: "nat \<Rightarrow> string \<Rightarrow> string" where
  "appendComma i sql = (if 0 < i then sql @ '', '' else sql)"

text \<open>
  A counting loop \<^verbatim>\<open>for (i = 0; i < n; ++i)\<close> over a string stream: \<open>forEach\<close> when the
  body cannot throw, \<open>forEachE\<close> when it can (the first exception ends the loop).
\<close>

definition forEach :: "nat \<Rightarrow> (nat \<Rightarrow> string \<Rightarrow> string) \<Rightarrow> string \<Rightarrow> string" where
  "forEach n body sql = fold body [0..<n] sql"

fun forEachE ::
  "nat list \<Rightarrow> (nat \<Rightarrow> string \<Rightarrow> exception + string) \<Rightarrow> string \<Rightarrow> exception + string"
where
  "forEachE [] body sql = Inr sql"
| "forEachE (i # is) body sql =
     (case body i sql of Inl e \<Rightarrow> Inl e | Inr sql' \<Rightarrow> forEachE is body sql')"

section \<open>The plan\<close>

datatype field_access = FieldAccess velox_type string

fun fieldName :: "field_access \<Rightarrow> string" where
  "fieldName (FieldAccess _ n) = n"

record sort_order =
  ascending :: bool
  nullsFirst :: bool

text \<open>A row vector: its row type and its rows, each a list of cells.\<close>

record row_vector =
  vectorType :: row_type
  vectorRows :: "variant list list"

datatype step = kPartial | kFinal | kIntermediate | kSingle

record aggregate =
  agg_call :: typed_expr
  agg_sortingKeys :: "field_access list"
  agg_sortingOrders :: "sort_order list"
  agg_distinct :: bool
  agg_mask :: "field_access option"

record window_function =
  functionCall :: typed_expr
  ignoreNulls :: bool

record hive_sort_column =
  sortColumn :: string
  sortOrder :: sort_order

record hive_bucket_property =
  bucketCount :: int
  bucketedBy :: "string list"
  sortedBy :: "hive_sort_column list"

record hive_column_handle =
  columnName :: string
  isPartitionKey :: bool

record hive_insert_table_handle =
  inputColumns :: "hive_column_handle list"
  bucketProperty :: "hive_bucket_property option"

definition isPartitioned :: "hive_insert_table_handle \<Rightarrow> bool" where
  "isPartitioned h = list_ex isPartitionKey (inputColumns h)"

datatype join_type =
    kInner | kLeft | kRight | kFull | kLeftSemiFilter | kLeftSemiProject
  | kRightSemiFilter | kRightSemiProject | kAnti

text \<open>
  The plan nodes of velox/core/PlanNode.h that the compiler tells apart by dynamic cast,
  and \<open>OtherNode\<close> for every other class of plan node (Filter, OrderBy, Limit, ...).
  Every node starts with its id; the arguments after it are, in order:
  \<^item> \<open>ProjectNode\<close>: names, projections, source;
  \<^item> \<open>WindowNode\<close>: partitionKeys, sortingKeys, sortingOrders, windowFunctions,
    outputType, source;
  \<^item> \<open>AggregationNode\<close>: step, groupingKeys, aggregateNames, aggregates, outputType,
    source;
  \<^item> \<open>RowNumberNode\<close>: partitionKeys, limit, outputType, source;
  \<^item> \<open>TopNRowNumberNode\<close>: partitionKeys, sortingKeys, sortingOrders, limit,
    outputType, source;
  \<^item> \<open>TableWriteNode\<close>: columnNames, the Hive insert-table handle, outputType, source;
  \<^item> \<open>HashJoinNode\<close>: joinType, leftKeys, rightKeys, filter, outputType, left and
    right source;
  \<^item> \<open>NestedLoopJoinNode\<close>: joinType, joinCondition, outputType, left and right source;
  \<^item> \<open>ValuesNode\<close>: values, outputType;
  \<^item> \<open>TableScanNode\<close>: the table handle's name, outputType;
  \<^item> \<open>OtherNode\<close>: outputType, sources.
\<close>

datatype plan_node =
    ProjectNode string "string list" "typed_expr list" plan_node
  | WindowNode string "field_access list" "field_access list" "sort_order list"
      "window_function list" row_type plan_node
  | AggregationNode string step "field_access list" "string list" "aggregate list"
      row_type plan_node
  | RowNumberNode string "field_access list" "int option" row_type plan_node
  | TopNRowNumberNode string "field_access list" "field_access list" "sort_order list"
      int row_type plan_node
  | TableWriteNode string "string list" hive_insert_table_handle row_type plan_node
  | HashJoinNode string join_type "field_access list" "field_access list"
      "typed_expr option" row_type plan_node plan_node
  | NestedLoopJoinNode string join_type "typed_expr option" row_type plan_node plan_node
  | ValuesNode string "row_vector list" row_type
  | TableScanNode string string row_type
  | OtherNode string row_type "plan_node list"

fun outputType :: "plan_node \<Rightarrow> row_type" where
  "outputType (ProjectNode _ names projections _) = zip names (map exprType projections)"
| "outputType (WindowNode _ _ _ _ _ t _) = t"
| "outputType (AggregationNode _ _ _ _ _ t _) = t"
| "outputType (RowNumberNode _ _ _ t _) = t"
| "outputType (TopNRowNumberNode _ _ _ _ _ t _) = t"
| "outputType (TableWriteNode _ _ _ t _) = t"
| "outputType (HashJoinNode _ _ _ _ _ t _ _) = t"
| "outputType (NestedLoopJoinNode _ _ _ t _ _) = t"
| "outputType (ValuesNode _ _ t) = t"
| "outputType (TableScanNode _ _ t) = t"
| "outputType (OtherNode _ t _) = t"

text \<open>
  \<^verbatim>\<open>generateRowNumber()\<close> of RowNumberNode and TopNRowNumberNode: the node's output type
  has one column more than its source's, the row number, which is its last column.
\<close>

definition generateRowNumber :: "row_type \<Rightarrow> plan_node \<Rightarrow> bool" where
  "generateRowNumber outType source = (length outType > length (outputType source))"

definition nameOf :: "row_type \<Rightarrow> nat \<Rightarrow> string" where
  "nameOf t i = fst (t ! i)"

section \<open>The compiler: plan to SQL\<close>

text \<open>
  The result of compiling: an exception, no SQL (the plan is unsupported), or the SQL.
\<close>

type_synonym sql_result = "exception + string option"

text \<open>
  What the compiler reads besides the plan. \<open>windowFrames\<close> is the runner's
  \<^verbatim>\<open>queryRunnerContext_->windowFrames_\<close>, from a node id to the frame clauses of its window
  functions. The other fields are functions the compiler calls that are not among the
  sources, taken as parameters: the expression printers of PrestoSql
  (\<^verbatim>\<open>toCallSql\<close>, \<^verbatim>\<open>toCastSql\<close>, \<^verbatim>\<open>toConcatSql\<close>, \<^verbatim>\<open>toConstantSql\<close>,
  \<^verbatim>\<open>toCallInputsSql\<close>, \<^verbatim>\<open>toAggregateCallSql\<close>), each of which may throw;
  \<^verbatim>\<open>isSupportedDwrfType\<close>; \<^verbatim>\<open>SortOrder::toString\<close>; and the \<^verbatim>\<open>toSql\<close> overloads of the
  base class for the two joins, Values and TableScan. A join's overload gets the node and
  what \<^verbatim>\<open>toSql\<close> gives for its two sources.

  The overloads read their vectors by index with no check, as in \<^verbatim>\<open>projections()[i]\<close> for
  \<^verbatim>\<open>i < names().size()\<close> or \<^verbatim>\<open>sortingOrders[j]\<close> for \<^verbatim>\<open>j < sortingKeys.size()\<close>; they are
  written \<open>xs ! i\<close> here, and no property below reads one past its end.
\<close>

record sql_env =
  windowFrames :: "string \<Rightarrow> string list option"
  isSupportedDwrfType :: "row_type \<Rightarrow> bool"
  toCallSql :: "typed_expr \<Rightarrow> exception + string"
  toCastSql :: "typed_expr \<Rightarrow> exception + string"
  toConcatSql :: "typed_expr \<Rightarrow> exception + string"
  toConstantSql :: "typed_expr \<Rightarrow> exception + string"
  toCallInputsSql :: "typed_expr list \<Rightarrow> exception + string"
  toAggregateCallSql ::
    "typed_expr \<Rightarrow> field_access list \<Rightarrow> sort_order list \<Rightarrow> bool \<Rightarrow> exception + string"
  sortOrderToString :: "sort_order \<Rightarrow> string"
  toSqlHashJoin :: "plan_node \<Rightarrow> sql_result \<Rightarrow> sql_result \<Rightarrow> sql_result"
  toSqlNestedLoopJoin :: "plan_node \<Rightarrow> sql_result \<Rightarrow> sql_result \<Rightarrow> sql_result"
  toSqlValues :: "plan_node \<Rightarrow> sql_result"
  toSqlTableScan :: "plan_node \<Rightarrow> sql_result"

text \<open>
  The tail every single-source overload shares: \<^verbatim>\<open>toSql(node->sources()[0])\<close>, none if
  the source has no SQL, else the rest of the statement around the source's SQL.
\<close>

definition withSource :: "sql_result \<Rightarrow> (string \<Rightarrow> string) \<Rightarrow> sql_result" where
  "withSource source rest =
     (case source of
        Inl e \<Rightarrow> Inl e
      | Inr None \<Rightarrow> Inr None
      | Inr (Some sourceSql) \<Rightarrow> Inr (Some (rest sourceSql)))"

subsection \<open>toSql(ProjectNode)\<close>

fun projectionSql :: "sql_env \<Rightarrow> typed_expr \<Rightarrow> exception + string" where
  "projectionSql env (FieldAccessTypedExpr t n) = Inr n"
| "projectionSql env (CallTypedExpr t n inputs) = toCallSql env (CallTypedExpr t n inputs)"
| "projectionSql env (CastTypedExpr t e b) = toCastSql env (CastTypedExpr t e b)"
| "projectionSql env (ConcatTypedExpr t inputs) = toConcatSql env (ConcatTypedExpr t inputs)"
| "projectionSql env (ConstantTypedExpr t v) = toConstantSql env (ConstantTypedExpr t v)"
| "projectionSql env _ = VELOX_NYI"

definition toSqlProject ::
  "sql_env \<Rightarrow> string list \<Rightarrow> typed_expr list \<Rightarrow> sql_result \<Rightarrow> sql_result"
where
  "toSqlProject env names projections source =
     (case source of
        Inl e \<Rightarrow> Inl e
      | Inr None \<Rightarrow> Inr None
      | Inr (Some sourceSql) \<Rightarrow>
          (case forEachE [0..<length names]
                  (\<lambda>i sql.
                     case projectionSql env (projections ! i) of
                       Inl e \<Rightarrow> Inl e
                     | Inr p \<Rightarrow> Inr (appendComma i sql @ p @ '' as '' @ names ! i))
                  ''SELECT '' of
             Inl e \<Rightarrow> Inl e
           | Inr sql \<Rightarrow> Inr (Some (sql @ '' FROM ('' @ sourceSql @ '')''))))"

subsection \<open>toSql(AggregationNode)\<close>

definition toSqlAggregation ::
  "sql_env \<Rightarrow> step \<Rightarrow> field_access list \<Rightarrow> string list \<Rightarrow> aggregate list \<Rightarrow>
   plan_node \<Rightarrow> sql_result \<Rightarrow> sql_result"
where
  "toSqlAggregation env step groupingKeys aggregateNames aggregates sourceNode source =
     (if step \<noteq> kSingle then
        VELOX_FAIL []
      else if \<not> isSupportedDwrfType env (outputType sourceNode) then Inr None
      else
        let keys = map fieldName groupingKeys;
            sql0 = ''SELECT '' @ join '', '' keys;
            sql1 = (if aggregates \<noteq> [] \<and> keys \<noteq> [] then sql0 @ '', '' else sql0)
        in
          (case forEachE [0..<length aggregates]
                  (\<lambda>i sql.
                     let a = aggregates ! i in
                     case toAggregateCallSql env (agg_call a) (agg_sortingKeys a)
                            (agg_sortingOrders a) (agg_distinct a) of
                       Inl e \<Rightarrow> Inl e
                     | Inr c \<Rightarrow>
                         Inr (appendComma i sql @ c @
                              (case agg_mask a of
                                 None \<Rightarrow> []
                               | Some m \<Rightarrow> '' filter (where '' @ fieldName m @ '')'') @
                              '' as '' @ aggregateNames ! i))
                  sql1 of
             Inl e \<Rightarrow> Inl e
           | Inr sql \<Rightarrow>
               withSource source
                 (\<lambda>sourceSql.
                    sql @ '' FROM '' @ sourceSql @
                    (if keys \<noteq> [] then '' GROUP BY '' @ join '', '' keys else []))))"

subsection \<open>toSql(WindowNode)\<close>

fun callName :: "typed_expr \<Rightarrow> string" where
  "callName (CallTypedExpr _ n _) = n"
| "callName _ = []"

fun callInputs :: "typed_expr \<Rightarrow> typed_expr list" where
  "callInputs (CallTypedExpr _ _ inputs) = inputs"
| "callInputs _ = []"

definition toWindowCallSql :: "sql_env \<Rightarrow> typed_expr \<Rightarrow> bool \<Rightarrow> exception + string" where
  "toWindowCallSql env call ignoreNulls' =
     (case toCallInputsSql env (callInputs call) of
        Inl e \<Rightarrow> Inl e
      | Inr inputs \<Rightarrow>
          Inr (callName call @ ''('' @ inputs @ '')'' @
               (if ignoreNulls' then '' IGNORE NULLS'' else [])))"

text \<open>
  The PARTITION BY and ORDER BY lists, as the Window, RowNumber and TopNRowNumber
  overloads each print them inside \<^verbatim>\<open>OVER (\<close>.
\<close>

definition partitionBySql :: "string \<Rightarrow> field_access list \<Rightarrow> string \<Rightarrow> string" where
  "partitionBySql keyword partitionKeys sql =
     (if partitionKeys \<noteq> [] then
        forEach (length partitionKeys)
          (\<lambda>i s. appendComma i s @ fieldName (partitionKeys ! i)) (sql @ keyword)
      else sql)"

definition orderBySql ::
  "sql_env \<Rightarrow> field_access list \<Rightarrow> sort_order list \<Rightarrow> string \<Rightarrow> string"
where
  "orderBySql env sortingKeys sortingOrders sql =
     (if sortingKeys \<noteq> [] then
        forEach (length sortingKeys)
          (\<lambda>j s. appendComma j s @ fieldName (sortingKeys ! j) @ '' '' @
                  sortOrderToString env (sortingOrders ! j))
          (sql @ '' ORDER BY '')
      else sql)"

definition inputColumnsSql :: "row_type \<Rightarrow> string \<Rightarrow> string" where
  "inputColumnsSql inputType sql =
     forEach (length inputType) (\<lambda>i s. appendComma i s @ nameOf inputType i) sql"

definition windowFrameAt :: "sql_env \<Rightarrow> string \<Rightarrow> nat \<Rightarrow> exception + string" where
  "windowFrameAt env nodeId i =
     (case windowFrames env nodeId of
        None \<Rightarrow> Inl (StdException ''std::out_of_range'')
      | Some frames \<Rightarrow>
          if i < length frames then Inr (frames ! i)
          else Inl (StdException ''std::out_of_range''))"

definition toSqlWindow ::
  "sql_env \<Rightarrow> string \<Rightarrow> field_access list \<Rightarrow> field_access list \<Rightarrow> sort_order list \<Rightarrow>
   window_function list \<Rightarrow> plan_node \<Rightarrow> sql_result \<Rightarrow> sql_result"
where
  "toSqlWindow env nodeId partitionKeys sortingKeys sortingOrders functions sourceNode source =
     (if \<not> isSupportedDwrfType env (outputType sourceNode) then Inr None
      else
        (case forEachE [0..<length functions]
                (\<lambda>i sql.
                   case toWindowCallSql env (functionCall (functions ! i))
                          (ignoreNulls (functions ! i)) of
                     Inl e \<Rightarrow> Inl e
                   | Inr c \<Rightarrow>
                       (case windowFrameAt env nodeId i of
                          Inl e \<Rightarrow> Inl e
                        | Inr frame \<Rightarrow>
                            Inr (orderBySql env sortingKeys sortingOrders
                                   (partitionBySql ''PARTITION BY '' partitionKeys
                                      (appendComma i sql @ c @ '' OVER (''))
                                 @ '' '' @ frame @ '')'')))
                (inputColumnsSql (outputType sourceNode) ''SELECT '' @ '', '') of
           Inl e \<Rightarrow> Inl e
         | Inr sql \<Rightarrow> withSource source (\<lambda>sourceSql. sql @ '' FROM '' @ sourceSql)))"

subsection \<open>toSql(RowNumberNode) and toSql(TopNRowNumberNode)\<close>

definition toSqlRowNumber ::
  "sql_env \<Rightarrow> field_access list \<Rightarrow> plan_node \<Rightarrow> sql_result \<Rightarrow> sql_result"
where
  "toSqlRowNumber env partitionKeys sourceNode source =
     (if \<not> isSupportedDwrfType env (outputType sourceNode) then Inr None
      else
        let sql =
              partitionBySql ''partition by '' partitionKeys
                (inputColumnsSql (outputType sourceNode) ''SELECT '' @
                 '', row_number() OVER ('')
        in withSource source (\<lambda>sourceSql. sql @ '') as row_number FROM '' @ sourceSql))"

definition toSqlTopNRowNumber ::
  "sql_env \<Rightarrow> field_access list \<Rightarrow> field_access list \<Rightarrow> sort_order list \<Rightarrow> int \<Rightarrow>
   row_type \<Rightarrow> plan_node \<Rightarrow> sql_result \<Rightarrow> sql_result"
where
  "toSqlTopNRowNumber env partitionKeys sortingKeys sortingOrders limit outType sourceNode
     source =
     (if \<not> isSupportedDwrfType env (outputType sourceNode) then Inr None
      else
        let sql =
              orderBySql env sortingKeys sortingOrders
                (partitionBySql ''partition by '' partitionKeys
                   (inputColumnsSql (outputType sourceNode) ''SELECT * FROM (SELECT '' @
                    '', row_number() OVER (''));
            rowNumberColumnName =
              (if generateRowNumber outType sourceNode then nameOf outType (length outType - 1)
               else ''row_number'')
        in withSource source
             (\<lambda>sourceSql.
                sql @ '') as '' @ rowNumberColumnName @ '' FROM '' @ sourceSql @ '') '' @
                '' where '' @ rowNumberColumnName @ '' <= '' @ to_string limit))"

subsection \<open>toSql(TableWriteNode)\<close>

definition quotedList :: "string list \<Rightarrow> string \<Rightarrow> string" where
  "quotedList xs sql =
     forEach (length xs) (\<lambda>i s. appendComma i s @ [CHR 0x27] @ xs ! i @ [CHR 0x27]) sql"

definition toSqlTableWrite ::
  "string list \<Rightarrow> hive_insert_table_handle \<Rightarrow> sql_result \<Rightarrow> sql_result"
where
  "toSqlTableWrite columnNames insertTableHandle source =
     (let partitionKeys =
            map (\<lambda>i. columnName (inputColumns insertTableHandle ! i))
              (filter (\<lambda>i. isPartitionKey (inputColumns insertTableHandle ! i))
                 [0..<length columnNames]);
          sql0 = ''CREATE TABLE tmp_write'' @ '' WITH ('';
          sql1 =
            (if isPartitioned insertTableHandle then
               let s1 = quotedList partitionKeys (sql0 @ '' PARTITIONED_BY = ARRAY['') @ ''], ''
               in (case bucketProperty insertTableHandle of
                     None \<Rightarrow> s1
                   | Some b \<Rightarrow>
                       let s2 =
                             quotedList (bucketedBy b)
                               (s1 @ '' BUCKET_COUNT = '' @ to_string (bucketCount b) @
                                '', BUCKETED_BY = ARRAY['') @ ''], ''
                       in if sortedBy b \<noteq> [] then
                            quotedList
                              (map (\<lambda>c. sortColumn c @ '' '' @
                                      (if ascending (sortOrder c) then ''ASC'' else ''DESC''))
                                 (sortedBy b))
                              (s2 @ '' SORTED_BY = ARRAY['') @ ''], ''
                          else s2)
             else sql0)
      in withSource source
           (\<lambda>sourceSql. sql1 @ ''FORMAT = '' @ [CHR 0x27] @ ''ORC'' @ [CHR 0x27] @
              '')  AS SELECT * FROM '' @ sourceSql))"

subsection \<open>toSql(PlanNodePtr): the dispatch\<close>

fun toSql :: "sql_env \<Rightarrow> plan_node \<Rightarrow> sql_result" where
  "toSql env (ProjectNode nodeId names projections source) =
     toSqlProject env names projections (toSql env source)"
| "toSql env (WindowNode nodeId partitionKeys sortingKeys sortingOrders functions t source) =
     toSqlWindow env nodeId partitionKeys sortingKeys sortingOrders functions source
       (toSql env source)"
| "toSql env (AggregationNode nodeId step groupingKeys aggregateNames aggregates t source) =
     toSqlAggregation env step groupingKeys aggregateNames aggregates source
       (toSql env source)"
| "toSql env (RowNumberNode nodeId partitionKeys limit t source) =
     toSqlRowNumber env partitionKeys source (toSql env source)"
| "toSql env (TopNRowNumberNode nodeId partitionKeys sortingKeys sortingOrders limit t source) =
     toSqlTopNRowNumber env partitionKeys sortingKeys sortingOrders limit t source
       (toSql env source)"
| "toSql env (TableWriteNode nodeId columnNames insertTableHandle t source) =
     toSqlTableWrite columnNames insertTableHandle (toSql env source)"
| "toSql env (HashJoinNode nodeId jt leftKeys rightKeys flt t left right) =
     toSqlHashJoin env (HashJoinNode nodeId jt leftKeys rightKeys flt t left right)
       (toSql env left) (toSql env right)"
| "toSql env (NestedLoopJoinNode nodeId jt cond t left right) =
     toSqlNestedLoopJoin env (NestedLoopJoinNode nodeId jt cond t left right)
       (toSql env left) (toSql env right)"
| "toSql env (ValuesNode nodeId values t) = toSqlValues env (ValuesNode nodeId values t)"
| "toSql env (TableScanNode nodeId table t) = toSqlTableScan env (TableScanNode nodeId table t)"
| "toSql env (OtherNode nodeId t sources) = VELOX_NYI"

section \<open>The protocol client\<close>

text \<open>
  What the runner does to the world, in order: the HTTP requests it sends (the URL, and
  for a POST the body, the user header and the session header) and the files it writes.
\<close>

datatype effect =
    HttpPost string string string string
  | HttpGet string
  | FileWrite string "row_vector list"

type_synonym trace = "effect list"

text \<open>
  A call that has effects takes the trace so far and returns an exception or a value,
  with the trace it leaves; \<open>None\<close> is a call that never returns.
\<close>

type_synonym 'a prog = "trace \<Rightarrow> ((exception + 'a) \<times> trace) option"

definition returnP :: "'a \<Rightarrow> 'a prog" where
  "returnP a t = Some (Inr a, t)"

definition liftE :: "exception + 'a \<Rightarrow> 'a prog" where
  "liftE x t = Some (x, t)"

definition bindP :: "'a prog \<Rightarrow> ('a \<Rightarrow> 'b prog) \<Rightarrow> 'b prog" where
  "bindP m f t =
     (case m t of
        None \<Rightarrow> None
      | Some (Inl e, t') \<Rightarrow> Some (Inl e, t')
      | Some (Inr a, t') \<Rightarrow> f a t')"

text \<open>
  The parsed reply of the engine, \<^verbatim>\<open>ServerResponse\<close>: the JSON object with its
  optional members \<^verbatim>\<open>nextUri\<close>, \<^verbatim>\<open>error\<close>, \<^verbatim>\<open>columns\<close> and \<^verbatim>\<open>binaryData\<close>.
\<close>

record query_error =
  errorCode :: int
  message :: string

record column =
  columnLabel :: string
  columnType :: string

record server_response =
  queryId :: string
  nextUri :: "string option"
  error :: "query_error option"
  columns :: "column list option"
  binaryData :: "string list option"

record cpr_response =
  status_code :: int
  error_message :: string
  response_text :: string

text \<open>
  The runner's members \<^verbatim>\<open>coordinatorUri_\<close> and \<^verbatim>\<open>user_\<close>, and what it calls that is not
  among the sources, taken as parameters:
  \<^item> \<open>cprRequest\<close>: the reply to the last request of a trace (\<^verbatim>\<open>cpr::Post\<close>,
    \<^verbatim>\<open>cpr::Get\<close>, under the runner's timeout), which may depend on everything sent and
    written before;
  \<^item> \<open>parseResponse\<close>: \<^verbatim>\<open>folly::parseJson\<close> and the typed reading of the members;
  \<^item> \<open>parseType\<close>, \<open>base64Decode\<close>, \<open>deserialize\<close>: the result codec;
  \<^item> \<open>writerOutcome\<close>: whether the DWRF writer fails on the last write of a trace;
  \<^item> \<open>toTypeSql\<close>, \<open>getAllTables\<close>, \<open>makeNullRows\<close>, \<open>extractSingleValue\<close>,
    \<open>parentPath\<close>, \<open>pathAppend\<close>: helpers of PrestoSql, FuzzerUtil and
    \<^verbatim>\<open>std::filesystem\<close>. \<open>getAllTables\<close> gives the entries of the code's
    \<^verbatim>\<open>std::unordered_map\<close> in the order its two loops visit them, which the map leaves
    open; a table name occurs once.
\<close>

record engine_env =
  coordinatorUri :: string
  user :: string
  cprRequest :: "trace \<Rightarrow> cpr_response"
  parseResponse :: "string \<Rightarrow> exception + server_response"
  parseType :: "string \<Rightarrow> exception + velox_type"
  base64Decode :: "string \<Rightarrow> exception + string"
  deserialize :: "row_type \<Rightarrow> string \<Rightarrow> exception + row_vector"
  writerOutcome :: "trace \<Rightarrow> exception option"
  toTypeSql :: "velox_type \<Rightarrow> exception + string"
  getAllTables :: "plan_node \<Rightarrow> exception + (string \<times> row_vector list) list"
  makeNullRows :: "row_vector list \<Rightarrow> string \<Rightarrow> exception + row_vector"
  extractSingleValue :: "row_vector list \<Rightarrow> exception + string"
  parentPath :: "string \<Rightarrow> string"
  pathAppend :: "string \<Rightarrow> string \<Rightarrow> string"

text \<open>A loop that maps a function that may throw over a list, in order.\<close>

fun mapE :: "('a \<Rightarrow> exception + 'b) \<Rightarrow> 'a list \<Rightarrow> exception + 'b list" where
  "mapE f [] = Inr []"
| "mapE f (x # xs) =
     (case f x of
        Inl e \<Rightarrow> Inl e
      | Inr y \<Rightarrow> (case mapE f xs of Inl e \<Rightarrow> Inl e | Inr ys \<Rightarrow> Inr (y # ys)))"

subsection \<open>ServerResponse\<close>

definition throwIfFailed :: "server_response \<Rightarrow> exception + unit" where
  "throwIfFailed response =
     (case error response of
        None \<Rightarrow> Inr ()
      | Some err \<Rightarrow>
          VELOX_FAIL (''Presto query failed: '' @ to_string (errorCode err) @ '' '' @
                      message err))"

definition queryCompleted :: "server_response \<Rightarrow> bool" where
  "queryCompleted response = (nextUri response = None)"

definition decodePage :: "engine_env \<Rightarrow> row_type \<Rightarrow> string \<Rightarrow> exception + row_vector" where
  "decodePage env rowType encodedData =
     (case base64Decode env encodedData of
        Inl e \<Rightarrow> Inl e
      | Inr raw \<Rightarrow> deserialize env rowType raw)"

definition queryResults :: "engine_env \<Rightarrow> server_response \<Rightarrow> exception + row_vector list" where
  "queryResults env response =
     (case binaryData response of
        None \<Rightarrow> Inr []
      | Some pages \<Rightarrow>
          (case columns response of
             None \<Rightarrow> Inl (StdException ''std::out_of_range'')
           | Some cols \<Rightarrow>
               (case mapE (\<lambda>c. parseType env (columnType c)) cols of
                  Inl e \<Rightarrow> Inl e
                | Inr types \<Rightarrow>
                    mapE (decodePage env (zip (map columnLabel cols) types)) pages)))"

subsection \<open>startQuery and fetchNext\<close>

definition checkStatus :: "string \<Rightarrow> string \<Rightarrow> cpr_response \<Rightarrow> exception + string" where
  "checkStatus verb uri response =
     (if status_code response = 200 then Inr (response_text response)
      else
        VELOX_FAIL (''('' @ to_string (status_code response) @ '' vs. 200) '' @ verb @ uri @
                    '' failed: '' @ error_message response))"

definition statementUri :: "engine_env \<Rightarrow> string" where
  "statementUri env = coordinatorUri env @ ''/v1/statement?binaryResults=true''"

definition statementRequest :: "engine_env \<Rightarrow> string \<Rightarrow> string \<Rightarrow> effect" where
  "statementRequest env sql sessionProperty =
     HttpPost (statementUri env) sql (user env) sessionProperty"

definition startQuery :: "engine_env \<Rightarrow> string \<Rightarrow> string \<Rightarrow> string prog" where
  "startQuery env sql sessionProperty t =
     (let t' = t @ [statementRequest env sql sessionProperty]
      in Some (checkStatus ''POST to '' (statementUri env) (cprRequest env t'), t'))"

definition fetchNext :: "engine_env \<Rightarrow> string \<Rightarrow> string prog" where
  "fetchNext env uri t =
     (let t' = t @ [HttpGet uri]
      in Some (checkStatus ''GET from '' uri (cprRequest env t'), t'))"

subsection \<open>execute(sql, sessionProperty)\<close>

text \<open>
  Building a \<^verbatim>\<open>ServerResponse\<close> from a reply's text and calling \<^verbatim>\<open>throwIfFailed\<close> on
  it: what the code does with every reply before it looks at anything else.
\<close>

definition checkedResponse :: "engine_env \<Rightarrow> string \<Rightarrow> exception + server_response" where
  "checkedResponse env body =
     (case parseResponse env body of
        Inl e \<Rightarrow> Inl e
      | Inr response \<Rightarrow>
          (case throwIfFailed response of Inl e \<Rightarrow> Inl e | Inr _ \<Rightarrow> Inr response))"

text \<open>
  The loop \<^verbatim>\<open>for (;;)\<close> of execute: it has no bound of its own, and runs for as long as
  the engine's replies carry a \<^verbatim>\<open>nextUri\<close>.
\<close>

partial_function (option) pollLoop ::
  "engine_env \<Rightarrow> server_response \<Rightarrow> row_vector list \<Rightarrow> trace \<Rightarrow>
   ((exception + row_vector list) \<times> trace) option"
where
  "pollLoop env response results t =
     (case queryResults env response of
        Inl e \<Rightarrow> Some (Inl e, t)
      | Inr pages \<Rightarrow>
          if queryCompleted response then Some (Inr (results @ pages), t)
          else
            (case fetchNext env (the (nextUri response)) t of
               None \<Rightarrow> None
             | Some (Inl e, t') \<Rightarrow> Some (Inl e, t')
             | Some (Inr body, t') \<Rightarrow>
                 (case checkedResponse env body of
                    Inl e \<Rightarrow> Some (Inl e, t')
                  | Inr response' \<Rightarrow> pollLoop env response' (results @ pages) t')))"

declare pollLoop.simps [code]

definition execute :: "engine_env \<Rightarrow> string \<Rightarrow> string \<Rightarrow> row_vector list prog" where
  "execute env sql sessionProperty =
     bindP (startQuery env sql sessionProperty)
       (\<lambda>body.
          bindP (liftE (checkedResponse env body))
            (\<lambda>response. pollLoop env response []))"

text \<open>\<^verbatim>\<open>execute(sql)\<close>: the same with an empty session property.\<close>

definition executeSql :: "engine_env \<Rightarrow> string \<Rightarrow> row_vector list prog" where
  "executeSql env sql = execute env sql []"

section \<open>The table materializer\<close>

definition nullValuesSql :: "engine_env \<Rightarrow> row_type \<Rightarrow> exception + string" where
  "nullValuesSql env inputType =
     forEachE [0..<length inputType]
       (\<lambda>i s.
          case toTypeSql env (snd (inputType ! i)) of
            Inl e \<Rightarrow> Inl e
          | Inr ty \<Rightarrow> Inr (appendComma i s @ ''cast(null as '' @ ty @ '')''))
       []"

definition createTable :: "engine_env \<Rightarrow> string \<Rightarrow> row_type \<Rightarrow> string prog" where
  "createTable env tableName inputType =
     bindP (liftE (nullValuesSql env inputType))
       (\<lambda>nullValues.
     bindP (executeSql env (''DROP TABLE IF EXISTS '' @ tableName))
       (\<lambda>_.
     bindP (executeSql env
              (''CREATE TABLE '' @ tableName @ ''('' @ join '', '' (map fst inputType) @
               '') WITH (format = '' @ [CHR 0x27] @ ''DWRF'' @ [CHR 0x27] @ '') AS SELECT '' @
               nullValues))
       (\<lambda>_.
     bindP (executeSql env
              (''SELECT '' @ [CHR 0x22] @ ''$path'' @ [CHR 0x22] @ '' FROM '' @ tableName))
       (\<lambda>results.
     bindP (liftE (extractSingleValue env results))
       (\<lambda>filePath.
     bindP (executeSql env (''DELETE FROM '' @ tableName))
       (\<lambda>_. returnP (parentPath env filePath)))))))"

definition writeToFile :: "engine_env \<Rightarrow> string \<Rightarrow> row_vector list \<Rightarrow> unit prog" where
  "writeToFile env path data t =
     (if \<not> length data > 0 then Some (VELOX_FAIL ''(0 vs. 0)'', t)
      else
        let t' = t @ [FileWrite path data]
        in (case writerOutcome env t' of
              None \<Rightarrow> Some (Inr (), t')
            | Some e \<Rightarrow> Some (Inl e, t')))"

section \<open>The orchestrator\<close>

datatype ReferenceQueryErrorCode =
  kSuccess | kReferenceQueryFail | kReferenceQueryUnsupported

text \<open>
  The first loop of the try block: a table whose row type has no column gets one
  all-null column. \<open>input ! 0\<close> is the code's unchecked \<^verbatim>\<open>input[0]\<close>.
\<close>

definition nullRowsIfEmpty ::
  "engine_env \<Rightarrow> string \<times> row_vector list \<Rightarrow> exception + (string \<times> row_vector list)"
where
  "nullRowsIfEmpty env entry =
     (case entry of
        (tableName, input) \<Rightarrow>
          if length (vectorType (input ! 0)) = 0 then
            (case makeNullRows env input (tableName @ ''x'') of
               Inl e \<Rightarrow> Inl e
             | Inr v \<Rightarrow> Inr (tableName, [v]))
          else Inr (tableName, input))"

definition dwrfFilePath :: "engine_env \<Rightarrow> string \<Rightarrow> string \<Rightarrow> exception + string" where
  "dwrfFilePath env tableDirectoryPath tableName =
     (let p = pathAppend env tableDirectoryPath (tableName @ ''.dwrf'')
      in if length p < length ''file:'' then Inl (StdException ''std::out_of_range'')
         else Inr (drop (length ''file:'') p))"

text \<open>The second loop of the try block: create each table and write its file.\<close>

fun materializeTables :: "engine_env \<Rightarrow> (string \<times> row_vector list) list \<Rightarrow> unit prog" where
  "materializeTables env [] = returnP ()"
| "materializeTables env ((tableName, input) # rest) =
     bindP (createTable env tableName (vectorType (input ! 0)))
       (\<lambda>tableDirectoryPath.
     bindP (liftE (dwrfFilePath env tableDirectoryPath tableName))
       (\<lambda>filePath.
     bindP (writeToFile env filePath input)
       (\<lambda>_. materializeTables env rest)))"

definition tryBlock :: "engine_env \<Rightarrow> plan_node \<Rightarrow> string \<Rightarrow> row_vector list prog" where
  "tryBlock env plan sql =
     bindP (liftE (getAllTables env plan))
       (\<lambda>inputMap.
     bindP (liftE (mapE (nullRowsIfEmpty env) inputMap))
       (\<lambda>inputMap'.
     bindP (materializeTables env inputMap')
       (\<lambda>_. executeSql env sql)))"

text \<open>
  The two handlers of the try block. Only a \<^verbatim>\<open>VeloxRuntimeError\<close> reaches the first one,
  which throws it again when \<^verbatim>\<open>e.message().find("Couldn't connect to server")\<close> finds the
  text; everything else ends as a failed reference query.
\<close>

definition catchBlock ::
  "exception \<Rightarrow> exception + (row_vector list option \<times> ReferenceQueryErrorCode)"
where
  "catchBlock e =
     (case e of
        VeloxRuntimeError c msg \<Rightarrow>
          if str_find msg (''Couldn'' @ [CHR 0x27] @ ''t connect to server'') then Inl e
          else Inr (None, kReferenceQueryFail)
      | _ \<Rightarrow> Inr (None, kReferenceQueryFail))"

definition executeAndReturnVector ::
  "sql_env \<Rightarrow> engine_env \<Rightarrow> plan_node \<Rightarrow>
   (row_vector list option \<times> ReferenceQueryErrorCode) prog"
where
  "executeAndReturnVector senv env plan t =
     (case toSql senv plan of
        Inl e \<Rightarrow> Some (Inl e, t)
      | Inr None \<Rightarrow> Some (Inr (None, kReferenceQueryUnsupported), t)
      | Inr (Some sql) \<Rightarrow>
          (case tryBlock env plan sql t of
             None \<Rightarrow> None
           | Some (Inl e, t') \<Rightarrow> Some (catchBlock e, t')
           | Some (Inr results, t') \<Rightarrow> Some (Inr (Some results, kSuccess), t')))"

text \<open>
  Modelled from the spec: \<^verbatim>\<open>exec::test::materialize\<close> (QueryAssertions, not among the
  sources) turns row vectors into the multiset of their rows.
\<close>

definition materialize :: "row_vector list \<Rightarrow> variant list multiset" where
  "materialize vectors = mset (concat (map vectorRows vectors))"

text \<open>\<^verbatim>\<open>execute(plan)\<close>.\<close>

definition executePlan ::
  "sql_env \<Rightarrow> engine_env \<Rightarrow> plan_node \<Rightarrow>
   (variant list multiset option \<times> ReferenceQueryErrorCode) prog"
where
  "executePlan senv env plan =
     bindP (executeAndReturnVector senv env plan)
       (\<lambda>result.
          case fst result of
            Some vectors \<Rightarrow> returnP (Some (materialize vectors), snd result)
          | None \<Rightarrow> returnP (None, snd result))"

section \<open>Notions the properties are stated with\<close>

text \<open>The ten classes of plan node that \<^verbatim>\<open>toSql(PlanNodePtr)\<close> has a branch for.\<close>

fun hasSqlOverload :: "plan_node \<Rightarrow> bool" where
  "hasSqlOverload (OtherNode _ _ _) = False"
| "hasSqlOverload _ = True"

text \<open>The five classes of expression that \<^verbatim>\<open>toSql(ProjectNode)\<close> has a branch for.\<close>

fun coveredProjection :: "typed_expr \<Rightarrow> bool" where
  "coveredProjection (FieldAccessTypedExpr _ _) = True"
| "coveredProjection (CallTypedExpr _ _ _) = True"
| "coveredProjection (CastTypedExpr _ _ _) = True"
| "coveredProjection (ConcatTypedExpr _ _) = True"
| "coveredProjection (ConstantTypedExpr _ _) = True"
| "coveredProjection _ = False"

text \<open>
  The engine's reply to the last request of a trace is the response \<open>r\<close>: status 200 and
  a body that parses to \<open>r\<close>.
\<close>

definition repliesWith :: "engine_env \<Rightarrow> trace \<Rightarrow> server_response \<Rightarrow> bool" where
  "repliesWith env t r =
     (status_code (cprRequest env t) = 200 \<and>
      parseResponse env (response_text (cprRequest env t)) = Inr r)"

text \<open>
  After the trace \<open>t\<close> and the response \<open>r\<close>, the responses \<open>rs\<close> are what the engine
  answers, one after the other, to a client that asks for the \<^verbatim>\<open>nextUri\<close> of the response
  it has just got.
\<close>

fun continues :: "engine_env \<Rightarrow> trace \<Rightarrow> server_response \<Rightarrow> server_response list \<Rightarrow> bool" where
  "continues env t r [] = True"
| "continues env t r (r' # rs) =
     (case nextUri r of
        None \<Rightarrow> False
      | Some uri \<Rightarrow>
          repliesWith env (t @ [HttpGet uri]) r' \<and> continues env (t @ [HttpGet uri]) r' rs)"

text \<open>The pages of a response decode; and the row vectors they decode to.\<close>

definition decodes :: "engine_env \<Rightarrow> server_response \<Rightarrow> bool" where
  "decodes env r = (case queryResults env r of Inl _ \<Rightarrow> False | Inr _ \<Rightarrow> True)"

definition decodedPages :: "engine_env \<Rightarrow> server_response \<Rightarrow> row_vector list" where
  "decodedPages env r = (case queryResults env r of Inl _ \<Rightarrow> [] | Inr pages \<Rightarrow> pages)"

text \<open>The continuation requests that follow the responses \<open>rs\<close>, one for each.\<close>

definition continuationRequests :: "server_response list \<Rightarrow> trace" where
  "continuationRequests rs = map (\<lambda>r. HttpGet (the (nextUri r))) rs"

text \<open>
  The plan has, somewhere in its tree, a Project node with a projection that is no
  FieldAccess, Call, Cast, Concat or Constant (among the projections the overload prints,
  one for each name). The search goes below every node; below a join only when
  \<open>throughJoins\<close> is set.
\<close>

fun containsUncoveredProjection :: "bool \<Rightarrow> plan_node \<Rightarrow> bool" where
  "containsUncoveredProjection throughJoins (ProjectNode _ names projections source) =
     (list_ex (\<lambda>i. \<not> coveredProjection (projections ! i)) [0..<length names] \<or>
      containsUncoveredProjection throughJoins source)"
| "containsUncoveredProjection throughJoins (WindowNode _ _ _ _ _ _ source) =
     containsUncoveredProjection throughJoins source"
| "containsUncoveredProjection throughJoins (AggregationNode _ _ _ _ _ _ source) =
     containsUncoveredProjection throughJoins source"
| "containsUncoveredProjection throughJoins (RowNumberNode _ _ _ _ source) =
     containsUncoveredProjection throughJoins source"
| "containsUncoveredProjection throughJoins (TopNRowNumberNode _ _ _ _ _ _ source) =
     containsUncoveredProjection throughJoins source"
| "containsUncoveredProjection throughJoins (TableWriteNode _ _ _ _ source) =
     containsUncoveredProjection throughJoins source"
| "containsUncoveredProjection throughJoins (HashJoinNode _ _ _ _ _ _ left right) =
     (throughJoins \<and>
      (containsUncoveredProjection throughJoins left \<or>
       containsUncoveredProjection throughJoins right))"
| "containsUncoveredProjection throughJoins (NestedLoopJoinNode _ _ _ _ left right) =
     (throughJoins \<and>
      (containsUncoveredProjection throughJoins left \<or>
       containsUncoveredProjection throughJoins right))"
| "containsUncoveredProjection throughJoins (ValuesNode _ _ _) = False"
| "containsUncoveredProjection throughJoins (TableScanNode _ _ _) = False"
| "containsUncoveredProjection throughJoins (OtherNode _ _ sources) =
     list_ex (containsUncoveredProjection throughJoins) sources"

text \<open>
  What is asked of the two join overloads, which are not among the sources, for a
  property that looks below joins: a join has SQL only when both of its sources have.
\<close>

definition joinsPropagate :: "sql_env \<Rightarrow> bool" where
  "joinsPropagate env =
     (\<forall>node left right sql.
        toSqlHashJoin env node left right = Inr (Some sql) \<or>
        toSqlNestedLoopJoin env node left right = Inr (Some sql) \<longrightarrow>
        (\<exists>l. left = Inr (Some l)) \<and> (\<exists>r. right = Inr (Some r)))"

section \<open>Collaborators for the examples\<close>

text \<open>
  An instance of the compiler's parameters to evaluate it on examples: every row type
  without a DATE, INTERVAL DAY TO SECOND or UNKNOWN column is supported, a Values node
  compiles to the table \<^verbatim>\<open>t_<id>\<close> (the name in the comment of the TableWrite overload) when
  its type is supported, a TableScan node to its table's name, a sort order prints as
  \<^verbatim>\<open>ASC NULLS LAST\<close> and the like; the joins and the expression printers are no part of
  the examples and throw.
\<close>

definition sampleSqlEnv :: sql_env where
  "sampleSqlEnv =
     \<lparr> windowFrames = Map.empty,
       isSupportedDwrfType =
         (\<lambda>t. list_all (\<lambda>c. snd c \<notin> {DATE, INTERVAL_DAY_TIME, UNKNOWN}) t),
       toCallSql = (\<lambda>_. VELOX_NYI),
       toCastSql = (\<lambda>_. VELOX_NYI),
       toConcatSql = (\<lambda>_. VELOX_NYI),
       toConstantSql = (\<lambda>_. VELOX_NYI),
       toCallInputsSql = (\<lambda>_. VELOX_NYI),
       toAggregateCallSql = (\<lambda>_ _ _ _. VELOX_NYI),
       sortOrderToString =
         (\<lambda>so. (if ascending so then ''ASC'' else ''DESC'') @ '' NULLS '' @
               (if nullsFirst so then ''FIRST'' else ''LAST'')),
       toSqlHashJoin = (\<lambda>_ _ _. VELOX_NYI),
       toSqlNestedLoopJoin = (\<lambda>_ _ _. VELOX_NYI),
       toSqlValues =
         (\<lambda>node. case node of
                   ValuesNode nodeId _ t \<Rightarrow>
                     if list_all (\<lambda>c. snd c \<notin> {DATE, INTERVAL_DAY_TIME, UNKNOWN}) t
                     then Inr (Some (''t_'' @ nodeId)) else Inr None
                 | _ \<Rightarrow> VELOX_NYI),
       toSqlTableScan =
         (\<lambda>node. case node of TableScanNode _ table _ \<Rightarrow> Inr (Some table) | _ \<Rightarrow> VELOX_NYI) \<rparr>"

text \<open>
  A scripted engine. It answers a request by its last part alone: the continuation
  request for \<^verbatim>\<open>u\<close> gets the body \<^verbatim>\<open>u\<close>; a statement gets the location of the table when
  it asks for \<^verbatim>\<open>$path\<close>, the body \<^verbatim>\<open>q0\<close> when it is another SELECT (\<^verbatim>\<open>f0\<close> when that
  names \<^verbatim>\<open>t_1\<close>), and an empty final response otherwise. A body parses to the response
  of its name: \<^verbatim>\<open>q0\<close>, \<^verbatim>\<open>q1\<close>, \<^verbatim>\<open>q2\<close> are a query of three responses with four pages;
  \<^verbatim>\<open>f0\<close> continues to \<^verbatim>\<open>f1\<close>, which carries an error, a \<^verbatim>\<open>nextUri\<close> and a page. A page
  decodes to one row holding its text. The tables of a plan are the values of its Values
  nodes, each under the name \<^verbatim>\<open>t_<id>\<close>; a name that comes again keeps the values it has,
  as a second insertion into the code's map does.
\<close>

definition okReply :: "string \<Rightarrow> cpr_response" where
  "okReply body = \<lparr> status_code = 200, error_message = [], response_text = body \<rparr>"

definition dataResponse :: "string option \<Rightarrow> string list \<Rightarrow> server_response" where
  "dataResponse next pages =
     \<lparr> queryId = ''20261102_q'', nextUri = next, error = None,
       columns = Some [\<lparr> columnLabel = ''c0'', columnType = ''varchar'' \<rparr>],
       binaryData = Some pages \<rparr>"

definition failedResponse :: server_response where
  "failedResponse =
     \<lparr> queryId = ''20261102_f'', nextUri = Some ''f2'',
       error = Some \<lparr> errorCode = 8, message = ''Division by zero'' \<rparr>,
       columns = Some [\<lparr> columnLabel = ''c0'', columnType = ''varchar'' \<rparr>],
       binaryData = Some [''lost''] \<rparr>"

definition finalResponse :: server_response where
  "finalResponse =
     \<lparr> queryId = ''20261102_d'', nextUri = None, error = None, columns = None,
       binaryData = None \<rparr>"

definition sampleStatementBody :: "string \<Rightarrow> string" where
  "sampleStatementBody sql =
     (if prefix (''SELECT '' @ [CHR 0x22]) sql then
        ''path:'' @ drop (length (''SELECT '' @ [CHR 0x22] @ ''$path'' @ [CHR 0x22] @ '' FROM '')) sql
      else if prefix ''SELECT '' sql then (if str_find sql ''t_1'' then ''f0'' else ''q0'')
      else ''done'')"

definition sampleParse :: "string \<Rightarrow> exception + server_response" where
  "sampleParse body =
     (if body = ''q0'' then Inr (dataResponse (Some ''q1'') [''a''])
      else if body = ''q1'' then Inr (dataResponse (Some ''q2'') [''b'', ''c''])
      else if body = ''q2'' then Inr (dataResponse None [''d''])
      else if body = ''f0'' then Inr (dataResponse (Some ''f1'') [''e''])
      else if body = ''f1'' then Inr failedResponse
      else if prefix ''path:'' body then
        Inr (dataResponse None [''file:/warehouse/'' @ drop (length ''path:'') body @ ''/part-0''])
      else if body = ''done'' then Inr finalResponse
      else Inl (StdException ''folly::json::parse_error''))"

definition sampleVector :: "row_type \<Rightarrow> string \<Rightarrow> row_vector" where
  "sampleVector rowType raw = \<lparr> vectorType = rowType, vectorRows = [[VText raw]] \<rparr>"

definition addTables ::
  "(string \<times> row_vector list) list \<Rightarrow> (string \<times> row_vector list) list \<Rightarrow>
   (string \<times> row_vector list) list"
where
  "addTables tables added =
     fold (\<lambda>entry m. if fst entry \<in> set (map fst m) then m else m @ [entry]) added tables"

fun sampleTables :: "plan_node \<Rightarrow> (string \<times> row_vector list) list" where
  "sampleTables (ProjectNode _ _ _ source) = sampleTables source"
| "sampleTables (WindowNode _ _ _ _ _ _ source) = sampleTables source"
| "sampleTables (AggregationNode _ _ _ _ _ _ source) = sampleTables source"
| "sampleTables (RowNumberNode _ _ _ _ source) = sampleTables source"
| "sampleTables (TopNRowNumberNode _ _ _ _ _ _ source) = sampleTables source"
| "sampleTables (TableWriteNode _ _ _ _ source) = sampleTables source"
| "sampleTables (HashJoinNode _ _ _ _ _ _ left right) =
     addTables (sampleTables left) (sampleTables right)"
| "sampleTables (NestedLoopJoinNode _ _ _ _ left right) =
     addTables (sampleTables left) (sampleTables right)"
| "sampleTables (ValuesNode nodeId values _) = [(''t_'' @ nodeId, values)]"
| "sampleTables (TableScanNode _ _ _) = []"
| "sampleTables (OtherNode _ _ sources) = addTables [] (concat (map sampleTables sources))"

definition sampleEngine :: engine_env where
  "sampleEngine =
     \<lparr> coordinatorUri = ''http://127.0.0.1:8080'',
       user = ''fuzzer'',
       cprRequest =
         (\<lambda>t. case last t of
                 HttpPost uri sql _ _ \<Rightarrow> okReply (sampleStatementBody sql)
               | HttpGet uri \<Rightarrow> okReply uri
               | FileWrite _ _ \<Rightarrow> okReply ''done''),
       parseResponse = sampleParse,
       parseType =
         (\<lambda>s. if s = ''varchar'' then Inr VARCHAR
              else Inl (VeloxRuntimeError kInvalidState ''Failed to parse type'')),
       base64Decode = (\<lambda>s. Inr s),
       deserialize = (\<lambda>rowType raw. Inr (sampleVector rowType raw)),
       writerOutcome = (\<lambda>_. None),
       toTypeSql =
         (\<lambda>ty. if ty = VARCHAR then Inr ''VARCHAR'' else if ty = INTEGER then Inr ''INTEGER''
               else VELOX_NYI),
       getAllTables = (\<lambda>plan. Inr (sampleTables plan)),
       makeNullRows = (\<lambda>input n. Inr \<lparr> vectorType = [(n, UNKNOWN)], vectorRows = [] \<rparr>),
       extractSingleValue =
         (\<lambda>results. case results of
                      [v] \<Rightarrow>
                        (case vectorRows v of
                           [[VText s]] \<Rightarrow> Inr s
                         | _ \<Rightarrow> Inl (VeloxRuntimeError kInvalidState ''Expected one value''))
                    | _ \<Rightarrow> Inl (VeloxRuntimeError kInvalidState ''Expected one vector'')),
       parentPath = (\<lambda>p. rev (drop 1 (dropWhile (\<lambda>c. c \<noteq> CHR ''/'') (rev p)))),
       pathAppend = (\<lambda>d f. d @ ''/'' @ f) \<rparr>"


text \<open>
  Plans: the values \<^verbatim>\<open>t_0\<close>, a projection over them, the same over \<^verbatim>\<open>t_1\<close>, values
  with a DATE column, and an expression that is no FieldAccess, Call, Cast, Concat or
  Constant.
\<close>

definition sampleValues :: plan_node where
  "sampleValues =
     ValuesNode ''0''
       [\<lparr> vectorType = [(''c0'', INTEGER)], vectorRows = [[VInt 1], [VInt 2]] \<rparr>]
       [(''c0'', INTEGER)]"

definition samplePlan :: plan_node where
  "samplePlan = ProjectNode ''1'' [''c0''] [FieldAccessTypedExpr INTEGER ''c0''] sampleValues"

definition failingPlan :: plan_node where
  "failingPlan =
     ProjectNode ''2'' [''c0''] [FieldAccessTypedExpr INTEGER ''c0'']
       (ValuesNode ''1''
          [\<lparr> vectorType = [(''c0'', INTEGER)], vectorRows = [[VInt 1], [VInt 0]] \<rparr>]
          [(''c0'', INTEGER)])"

definition dateValues :: plan_node where
  "dateValues =
     ValuesNode ''0'' [\<lparr> vectorType = [(''d'', DATE)], vectorRows = [[VInt 19000]] \<rparr>]
       [(''d'', DATE)]"

definition sampleLambda :: typed_expr where
  "sampleLambda =
     LambdaTypedExpr (FUNCTION [INTEGER] INTEGER) [(''x'', INTEGER)]
       (FieldAccessTypedExpr INTEGER ''x'')"

text \<open>
  The compiler's parameters of the examples with joins that compile: a join of two
  sources that have SQL is their cross join; an exception of a source, the left one
  first, is passed on; otherwise the join has no SQL.
\<close>

definition sampleJoin :: "sql_result \<Rightarrow> sql_result \<Rightarrow> sql_result" where
  "sampleJoin left right =
     (case left of
        Inl e \<Rightarrow> Inl e
      | Inr l \<Rightarrow>
          (case right of
             Inl e \<Rightarrow> Inl e
           | Inr r \<Rightarrow>
               (case (l, r) of
                  (Some a, Some b) \<Rightarrow> Inr (Some (a @ '' CROSS JOIN '' @ b))
                | _ \<Rightarrow> Inr None)))"

definition joiningSqlEnv :: sql_env where
  "joiningSqlEnv =
     sampleSqlEnv
       \<lparr> toSqlHashJoin := (\<lambda>node. sampleJoin), toSqlNestedLoopJoin := (\<lambda>node. sampleJoin) \<rparr>"

text \<open>
  A plan with the uncovered projection deep in its tree: a RowNumber node over the join of
  a Project node that has it with the values \<^verbatim>\<open>t_0\<close>. And the same RowNumber node over a
  Project node that has it and whose output has a DATE column.
\<close>

definition uncoveredProject :: plan_node where
  "uncoveredProject = ProjectNode ''1'' [''c1''] [sampleLambda] sampleValues"

definition uncoveredBelowJoin :: plan_node where
  "uncoveredBelowJoin =
     RowNumberNode ''3'' [] None [(''c1'', INTEGER), (''c0'', INTEGER), (''row_number'', BIGINT)]
       (NestedLoopJoinNode ''2'' kInner None [(''c1'', INTEGER), (''c0'', INTEGER)]
          uncoveredProject sampleValues)"

definition uncoveredBelowDate :: plan_node where
  "uncoveredBelowDate =
     RowNumberNode ''3'' [] None [(''d'', DATE), (''row_number'', BIGINT)]
       (ProjectNode ''1'' [''d'']
          [DereferenceTypedExpr DATE (FieldAccessTypedExpr (ROW [(''d'', DATE)]) ''r'') 0]
          sampleValues)"




text \<open>What materializing one table of the examples sends and writes.\<close>

definition sampleTableEffects :: "engine_env \<Rightarrow> string \<Rightarrow> row_vector list \<Rightarrow> trace" where
  "sampleTableEffects env tableName input =
     [statementRequest env (''DROP TABLE IF EXISTS '' @ tableName) [],
      statementRequest env
        (''CREATE TABLE '' @ tableName @ ''(c0) WITH (format = '' @ [CHR 0x27] @ ''DWRF'' @
         [CHR 0x27] @ '') AS SELECT cast(null as INTEGER)'') [],
      statementRequest env
        (''SELECT '' @ [CHR 0x22] @ ''$path'' @ [CHR 0x22] @ '' FROM '' @ tableName) [],
      statementRequest env (''DELETE FROM '' @ tableName) [],
      FileWrite (''/warehouse/'' @ tableName @ ''/'' @ tableName @ ''.dwrf'') input]"

section \<open>Properties of the two predicates\<close>

text \<open>
  C5. For a constant expression, \<^verbatim>\<open>isConstantExprSupported\<close> is false when the type is
  timestamp, JSON, IP address, IP prefix or UUID, and true when the type is INTEGER, VARCHAR
  or DOUBLE.
\<close>

theorem isConstantExprSupported_by_type:
  assumes "isConstantTypedExpr expr"
  shows "(exprType expr \<in> {TIMESTAMP, JSON, IPADDRESS, IPPREFIX, UUID} \<longrightarrow>
            \<not> isConstantExprSupported expr) \<and>
         (exprType expr \<in> {INTEGER, VARCHAR, DOUBLE} \<longrightarrow> isConstantExprSupported expr)"
  using assms
  by (auto simp: isConstantExprSupported_def isPrimitiveType_def isTimestamp_def isJsonType_def
      isIntervalDayTime_def isIPAddressType_def isIPPrefixType_def isUuidType_def)

theorem isConstantExprSupported_by_type_witness:
  "isConstantTypedExpr (ConstantTypedExpr JSON (VText ''{}'')) \<and>
   \<not> isConstantExprSupported (ConstantTypedExpr JSON (VText ''{}'')) \<and>
   isConstantTypedExpr (ConstantTypedExpr INTEGER (VInt 7)) \<and>
   isConstantExprSupported (ConstantTypedExpr INTEGER (VInt 7))"
proof -
  have j: "isConstantTypedExpr (ConstantTypedExpr JSON (VText ''{}''))" by simp
  have i: "isConstantTypedExpr (ConstantTypedExpr INTEGER (VInt 7))" by simp
  from isConstantExprSupported_by_type [OF j] isConstantExprSupported_by_type [OF i] j i
  show ?thesis by simp
qed

text \<open>
  C6, as the code has it. \<^verbatim>\<open>isSupported\<close> is false whenever an input type or the return
  type uses one of the names bingtile, interval year to month, hugeint, hyperloglog,
  tdigest, or an input type uses one of the names json, ipaddress, ipprefix, uuid, and in
  no other case; a name is used when it is the base name of the type or of a type nested
  in it at any depth, whatever the case of its letters. So the return type is not looked
  at for the last four names: json, ipaddress, ipprefix or uuid in the return type alone,
  at any depth, leaves the signature supported.
\<close>

theorem isSupported_characterised:
  "isSupported sig \<longleftrightarrow>
     \<not> ((\<exists>n \<in> {''bingtile'', ''interval year to month'', ''hugeint'', ''hyperloglog'',
                  ''tdigest''}.
            containTypeName (returnType sig) n \<or>
            (\<exists>a \<in> set (argumentTypes sig). containTypeName a n)) \<or>
         (\<exists>n \<in> {''json'', ''ipaddress'', ''ipprefix'', ''uuid''}.
            \<exists>a \<in> set (argumentTypes sig). containTypeName a n))"
  by (simp add: isSupported_def usesTypeName_def usesInputTypeName_def)

lemma sample_signature_facts:
  "(\<exists>n \<in> {''json'', ''ipaddress'', ''ipprefix'', ''uuid''}.
      \<exists>a \<in> set (argumentTypes
                \<lparr> returnType = TypeSignature ''varchar'' [],
                  argumentTypes = [TypeSignature ''ARRAY'' [TypeSignature ''Map''
                    [TypeSignature ''varchar'' [], TypeSignature ''UUID'' []]]] \<rparr>).
        containTypeName a n)"
  "(\<exists>n \<in> {''bingtile'', ''interval year to month'', ''hugeint'', ''hyperloglog'',
           ''tdigest''}.
      containTypeName
        (returnType
           \<lparr> returnType = TypeSignature ''array'' [TypeSignature ''HyperLogLog'' []],
             argumentTypes = [TypeSignature ''varbinary'' []] \<rparr>) n \<or>
      (\<exists>a \<in> set (argumentTypes
                \<lparr> returnType = TypeSignature ''array'' [TypeSignature ''HyperLogLog'' []],
                  argumentTypes = [TypeSignature ''varbinary'' []] \<rparr>).
         containTypeName a n))"
  "\<not> ((\<exists>n \<in> {''bingtile'', ''interval year to month'', ''hugeint'', ''hyperloglog'',
               ''tdigest''}.
         containTypeName
           (returnType
              \<lparr> returnType = TypeSignature ''array'' [TypeSignature ''IPADDRESS'' []],
                argumentTypes = [TypeSignature ''varchar'' [], TypeSignature ''bigint'' []] \<rparr>)
           n \<or>
         (\<exists>a \<in> set (argumentTypes
                   \<lparr> returnType = TypeSignature ''array'' [TypeSignature ''IPADDRESS'' []],
                     argumentTypes =
                       [TypeSignature ''varchar'' [], TypeSignature ''bigint'' []] \<rparr>).
            containTypeName a n)) \<or>
      (\<exists>n \<in> {''json'', ''ipaddress'', ''ipprefix'', ''uuid''}.
         \<exists>a \<in> set (argumentTypes
                   \<lparr> returnType = TypeSignature ''array'' [TypeSignature ''IPADDRESS'' []],
                     argumentTypes =
                       [TypeSignature ''varchar'' [], TypeSignature ''bigint'' []] \<rparr>).
            containTypeName a n))"
  "\<not> ((\<exists>n \<in> {''bingtile'', ''interval year to month'', ''hugeint'', ''hyperloglog'',
               ''tdigest''}.
         containTypeName
           (returnType
              \<lparr> returnType = TypeSignature ''map''
                  [TypeSignature ''uuid'' [], TypeSignature ''IpPrefix'' []],
                argumentTypes = [TypeSignature ''varchar'' []] \<rparr>) n \<or>
         (\<exists>a \<in> set (argumentTypes
                   \<lparr> returnType = TypeSignature ''map''
                       [TypeSignature ''uuid'' [], TypeSignature ''IpPrefix'' []],
                     argumentTypes = [TypeSignature ''varchar'' []] \<rparr>).
            containTypeName a n)) \<or>
      (\<exists>n \<in> {''json'', ''ipaddress'', ''ipprefix'', ''uuid''}.
         \<exists>a \<in> set (argumentTypes
                   \<lparr> returnType = TypeSignature ''map''
                       [TypeSignature ''uuid'' [], TypeSignature ''IpPrefix'' []],
                     argumentTypes = [TypeSignature ''varchar'' []] \<rparr>).
            containTypeName a n))"
  by code_simp+

theorem isSupported_characterised_witness:
  "\<not> isSupported \<lparr> returnType = TypeSignature ''varchar'' [],
       argumentTypes = [TypeSignature ''ARRAY'' [TypeSignature ''Map''
           [TypeSignature ''varchar'' [], TypeSignature ''UUID'' []]]] \<rparr> \<and>
   \<not> isSupported \<lparr> returnType = TypeSignature ''array'' [TypeSignature ''HyperLogLog'' []],
       argumentTypes = [TypeSignature ''varbinary'' []] \<rparr> \<and>
   isSupported \<lparr> returnType = TypeSignature ''array'' [TypeSignature ''IPADDRESS'' []],
       argumentTypes = [TypeSignature ''varchar'' [], TypeSignature ''bigint'' []] \<rparr> \<and>
   isSupported \<lparr> returnType = TypeSignature ''map''
         [TypeSignature ''uuid'' [], TypeSignature ''IpPrefix'' []],
       argumentTypes = [TypeSignature ''varchar'' []] \<rparr>"
proof (intro conjI)
  show "\<not> isSupported \<lparr> returnType = TypeSignature ''varchar'' [],
       argumentTypes = [TypeSignature ''ARRAY'' [TypeSignature ''Map''
           [TypeSignature ''varchar'' [], TypeSignature ''UUID'' []]]] \<rparr>"
    using sample_signature_facts(1) by (simp only: isSupported_characterised simp_thms)
  show "\<not> isSupported \<lparr> returnType = TypeSignature ''array'' [TypeSignature ''HyperLogLog'' []],
       argumentTypes = [TypeSignature ''varbinary'' []] \<rparr>"
    using sample_signature_facts(2) by (simp only: isSupported_characterised simp_thms)
  show "isSupported \<lparr> returnType = TypeSignature ''array'' [TypeSignature ''IPADDRESS'' []],
       argumentTypes = [TypeSignature ''varchar'' [], TypeSignature ''bigint'' []] \<rparr>"
    using sample_signature_facts(3) by (simp only: isSupported_characterised simp_thms)
  show "isSupported \<lparr> returnType = TypeSignature ''map''
         [TypeSignature ''uuid'' [], TypeSignature ''IpPrefix'' []],
       argumentTypes = [TypeSignature ''varchar'' []] \<rparr>"
    using sample_signature_facts(4) by (simp only: isSupported_characterised simp_thms)
qed

theorem isSupported_return_json_counterexample:
  "containTypeName
     (returnType \<lparr> returnType = TypeSignature ''json'' [],
                   argumentTypes = [TypeSignature ''varchar'' []] \<rparr>) ''json'' \<and>
   isSupported \<lparr> returnType = TypeSignature ''json'' [],
                 argumentTypes = [TypeSignature ''varchar'' []] \<rparr>"
  by (simp add: isSupported_def usesTypeName_def usesInputTypeName_def sanitizeName_def
      toLower_def)

section \<open>Properties of the compiler\<close>

text \<open>
  C7. A plan node of none of the ten classes the dispatch knows ends in the
  not-implemented failure, which is not the result "no SQL"; the orchestrator calls the
  compiler outside its try block, so the failure leaves \<^verbatim>\<open>executeAndReturnVector\<close> uncaught,
  before anything is sent or written.
\<close>

theorem toSql_unhandled_kind:
  assumes "\<not> hasSqlOverload plan"
  shows "toSql senv plan = Inl (VeloxRuntimeError kNotImplemented []) \<and>
         toSql senv plan \<noteq> Inr None \<and>
         executeAndReturnVector senv env plan t =
           Some (Inl (VeloxRuntimeError kNotImplemented []), t)"
  using assms
  by (cases plan) (simp_all add: VELOX_NYI_def executeAndReturnVector_def)

theorem toSql_unhandled_kind_witness:
  "\<not> hasSqlOverload (OtherNode ''2'' [(''c0'', INTEGER)] [samplePlan]) \<and>
   toSql sampleSqlEnv (OtherNode ''2'' [(''c0'', INTEGER)] [samplePlan]) =
     Inl (VeloxRuntimeError kNotImplemented []) \<and>
   executeAndReturnVector sampleSqlEnv sampleEngine
       (OtherNode ''2'' [(''c0'', INTEGER)] [samplePlan]) [] =
     Some (Inl (VeloxRuntimeError kNotImplemented []), [])"
proof -
  have h: "\<not> hasSqlOverload (OtherNode ''2'' [(''c0'', INTEGER)] [samplePlan])" by simp
  from toSql_unhandled_kind [OF h, of sampleSqlEnv sampleEngine "[]"] h
  show ?thesis by blast
qed

subsection \<open>Projections\<close>

lemma forEachE_fails:
  assumes "\<And>s. \<exists>e. body i s = Inl e"
  shows "\<exists>e. forEachE (xs @ i # ys) body sql = Inl e"
proof (induction xs arbitrary: sql)
  case Nil
  from assms [of sql] show ?case by auto
next
  case (Cons x xs)
  show ?case
  proof (cases "body x sql")
    case (Inl e)
    then show ?thesis by simp
  next
    case (Inr s)
    with Cons.IH [of s] show ?thesis by simp
  qed
qed

lemma forEachE_first_failure:
  assumes "\<And>s. body i s = Inl e0"
    and "\<And>j s. j \<in> set xs \<Longrightarrow> \<exists>s'. body j s = Inr s'"
  shows "forEachE (xs @ i # ys) body sql = Inl e0"
  using assms(2)
proof (induction xs arbitrary: sql)
  case Nil
  show ?case by (simp add: assms(1))
next
  case (Cons x xs)
  from Cons.prems [of x sql] obtain s' where s': "body x sql = Inr s'" by auto
  have "forEachE (xs @ i # ys) body s' = Inl e0"
    by (rule Cons.IH) (use Cons.prems in auto)
  with s' show ?case by simp
qed

lemma upt_split: "i < n \<Longrightarrow> [0..<n] = [0..<i] @ i # [Suc i..<n]"
  using upt_add_eq_append [of 0 i "n - i"] upt_conv_Cons [of i n] by simp

lemma projectionSql_uncovered: "\<not> coveredProjection e \<Longrightarrow> projectionSql env e = VELOX_NYI"
  by (cases e) simp_all

text \<open>
  A Project node with a projection that is no FieldAccess, Call, Cast, Concat or Constant:
  what \<^verbatim>\<open>toSql\<close> gives for it, by what it gives for the node's source.
\<close>

lemma toSqlProject_uncovered:
  assumes "i < length names" and "\<not> coveredProjection (projections ! i)"
  shows "(case toSql env source of
            Inl e \<Rightarrow> toSql env (ProjectNode nodeId names projections source) = Inl e
          | Inr None \<Rightarrow> toSql env (ProjectNode nodeId names projections source) = Inr None
          | Inr (Some sourceSql) \<Rightarrow>
              (\<exists>e. toSql env (ProjectNode nodeId names projections source) = Inl e) \<and>
              ((\<forall>j<i. \<exists>p. projectionSql env (projections ! j) = Inr p) \<longrightarrow>
               toSql env (ProjectNode nodeId names projections source) =
                 Inl (VeloxRuntimeError kNotImplemented [])))"
proof (cases "toSql env source")
  case (Inl e)
  then show ?thesis by (simp add: toSqlProject_def)
next
  case (Inr r)
  show ?thesis
  proof (cases r)
    case None
    with Inr show ?thesis by (simp add: toSqlProject_def)
  next
    case (Some sourceSql)
    let ?body = "\<lambda>i sql. case projectionSql env (projections ! i) of
                       Inl e \<Rightarrow> Inl e
                     | Inr p \<Rightarrow> Inr (appendComma i sql @ p @ '' as '' @ names ! i)"
    have nyi: "\<And>s. ?body i s = Inl (VeloxRuntimeError kNotImplemented [])"
      using projectionSql_uncovered [OF assms(2), of env] by (simp add: VELOX_NYI_def)
    have split: "[0..<length names] = [0..<i] @ i # [Suc i..<length names]"
      by (rule upt_split [OF assms(1)])
    have a: "\<exists>e. forEachE [0..<length names] ?body ''SELECT '' = Inl e"
      unfolding split by (rule forEachE_fails) (simp add: nyi)
    have b: "forEachE [0..<length names] ?body ''SELECT '' =
               Inl (VeloxRuntimeError kNotImplemented [])"
      if "\<forall>j<i. \<exists>p. projectionSql env (projections ! j) = Inr p"
      unfolding split
    proof (rule forEachE_first_failure)
      show "\<And>s. ?body i s = Inl (VeloxRuntimeError kNotImplemented [])" by (rule nyi)
    next
      fix j s assume "j \<in> set [0..<i]"
      then have "j < i" by simp
      with that obtain p where "projectionSql env (projections ! j) = Inr p" by blast
      then show "\<exists>s'. ?body j s = Inr s'" by simp
    qed
    from a obtain e where e: "forEachE [0..<length names] ?body ''SELECT '' = Inl e" by blast
    have 1: "\<exists>e. toSql env (ProjectNode nodeId names projections source) = Inl e"
      using e Inr Some by (simp add: toSqlProject_def)
    have 2: "toSql env (ProjectNode nodeId names projections source) =
                 Inl (VeloxRuntimeError kNotImplemented [])"
      if "\<forall>j<i. \<exists>p. projectionSql env (projections ! j) = Inr p"
      using b [OF that] Inr Some by (simp add: toSqlProject_def)
    from 1 2 Inr Some show ?thesis by simp
  qed
qed

text \<open>A node has SQL only when its source has.\<close>

lemma withSource_sql:
  "withSource source rest = Inr (Some sql) \<Longrightarrow> \<exists>s. source = Inr (Some s)"
  by (auto simp: withSource_def split: sum.splits option.splits)

lemma toSqlProject_sql:
  "toSqlProject env names projections source = Inr (Some sql) \<Longrightarrow> \<exists>s. source = Inr (Some s)"
  by (auto simp: toSqlProject_def split: sum.splits option.splits)

lemma toSqlWindow_sql:
  "toSqlWindow env nodeId pk sk so fs sourceNode source = Inr (Some sql) \<Longrightarrow>
   \<exists>s. source = Inr (Some s)"
  by (auto simp: toSqlWindow_def dest: withSource_sql split: if_splits sum.splits)

lemma toSqlAggregation_sql:
  "toSqlAggregation env st gk an ags sourceNode source = Inr (Some sql) \<Longrightarrow>
   \<exists>s. source = Inr (Some s)"
  by (auto simp: toSqlAggregation_def VELOX_FAIL_def Let_def dest: withSource_sql
      split: if_splits sum.splits)

lemma toSqlRowNumber_sql:
  "toSqlRowNumber env pk sourceNode source = Inr (Some sql) \<Longrightarrow> \<exists>s. source = Inr (Some s)"
  by (auto simp: toSqlRowNumber_def Let_def dest: withSource_sql split: if_splits)

lemma toSqlTopNRowNumber_sql:
  "toSqlTopNRowNumber env pk sk so limit t sourceNode source = Inr (Some sql) \<Longrightarrow>
   \<exists>s. source = Inr (Some s)"
  by (auto simp: toSqlTopNRowNumber_def Let_def dest: withSource_sql split: if_splits)

lemma toSqlTableWrite_sql:
  "toSqlTableWrite cn h source = Inr (Some sql) \<Longrightarrow> \<exists>s. source = Inr (Some s)"
  by (auto simp: toSqlTableWrite_def Let_def dest: withSource_sql)

lemma uncovered_root_no_sql:
  assumes "list_ex (\<lambda>i. \<not> coveredProjection (projections ! i)) [0..<length names]"
  shows "toSql env (ProjectNode nodeId names projections source) \<noteq> Inr (Some sql)"
proof -
  from assms obtain i where i: "i < length names" "\<not> coveredProjection (projections ! i)"
    by (auto simp: list_ex_iff)
  from toSqlProject_uncovered [OF i, where env = env and source = source and nodeId = nodeId]
  show ?thesis by (cases "toSql env source") (auto split: option.splits)
qed

lemma no_sql_below:
  assumes "containsUncoveredProjection throughJoins plan"
    and "throughJoins \<Longrightarrow> joinsPropagate env"
  shows "toSql env plan \<noteq> Inr (Some sql)"
  using assms(1)
proof (induction plan arbitrary: sql)
  case (ProjectNode nodeId names projections source)
  show ?case
  proof (cases "list_ex (\<lambda>i. \<not> coveredProjection (projections ! i)) [0..<length names]")
    case True
    then show ?thesis by (rule uncovered_root_no_sql)
  next
    case False
    with ProjectNode.prems have "containsUncoveredProjection throughJoins source" by simp
    from ProjectNode.IH [OF this] show ?thesis by (auto dest: toSqlProject_sql)
  qed
next
  case WindowNode
  then show ?case by (auto dest: toSqlWindow_sql)
next
  case AggregationNode
  then show ?case by (auto dest: toSqlAggregation_sql)
next
  case RowNumberNode
  then show ?case by (auto dest: toSqlRowNumber_sql)
next
  case TopNRowNumberNode
  then show ?case by (auto dest: toSqlTopNRowNumber_sql)
next
  case TableWriteNode
  then show ?case by (auto dest: toSqlTableWrite_sql)
next
  case (HashJoinNode nodeId jt lk rk flt t left right)
  from HashJoinNode.prems have j: throughJoins by simp
  from HashJoinNode.prems
  have c: "containsUncoveredProjection throughJoins left \<or>
           containsUncoveredProjection throughJoins right"
    by auto
  from c HashJoinNode.IH
  have n: "(\<forall>l. toSql env left \<noteq> Inr (Some l)) \<or> (\<forall>r. toSql env right \<noteq> Inr (Some r))"
    by blast
  show ?case
  proof
    assume "toSql env (HashJoinNode nodeId jt lk rk flt t left right) = Inr (Some sql)"
    then have "toSqlHashJoin env (HashJoinNode nodeId jt lk rk flt t left right)
                 (toSql env left) (toSql env right) = Inr (Some sql)" by simp
    with assms(2) [OF j]
    have "(\<exists>l. toSql env left = Inr (Some l)) \<and> (\<exists>r. toSql env right = Inr (Some r))"
      unfolding joinsPropagate_def by blast
    with n show False by blast
  qed
next
  case (NestedLoopJoinNode nodeId jt cond t left right)
  from NestedLoopJoinNode.prems have j: throughJoins by simp
  from NestedLoopJoinNode.prems
  have c: "containsUncoveredProjection throughJoins left \<or>
           containsUncoveredProjection throughJoins right"
    by auto
  from c NestedLoopJoinNode.IH
  have n: "(\<forall>l. toSql env left \<noteq> Inr (Some l)) \<or> (\<forall>r. toSql env right \<noteq> Inr (Some r))"
    by blast
  show ?case
  proof
    assume "toSql env (NestedLoopJoinNode nodeId jt cond t left right) = Inr (Some sql)"
    then have "toSqlNestedLoopJoin env (NestedLoopJoinNode nodeId jt cond t left right)
                 (toSql env left) (toSql env right) = Inr (Some sql)" by simp
    with assms(2) [OF j]
    have "(\<exists>l. toSql env left = Inr (Some l)) \<and> (\<exists>r. toSql env right = Inr (Some r))"
      unfolding joinsPropagate_def by blast
    with n show False by blast
  qed
next
  case ValuesNode
  then show ?case by simp
next
  case TableScanNode
  then show ?case by simp
next
  case OtherNode
  show ?case by (simp add: VELOX_NYI_def)
qed

lemma not_sql_cases:
  "(\<forall>sql. r \<noteq> Inr (Some sql)) \<Longrightarrow> r = Inr None \<or> (\<exists>e. r = Inl e)"
  by (cases r) auto

lemma sample_joinsPropagate: "joinsPropagate joiningSqlEnv"
  by (auto simp: joinsPropagate_def joiningSqlEnv_def sampleJoin_def
      split: sum.splits option.splits)

text \<open>
  C8, as the code has it. For a plan that has, anywhere in its tree, a projection that is
  no FieldAccess, Call, Cast, Concat or Constant, \<^verbatim>\<open>toSql\<close> gives no SQL: it returns none
  or it throws. It throws, and does not return none, at a Project node that has such a
  projection and whose source compiles: the not-implemented failure, when the projections
  before that one print without an exception of their own. Below a join the first part
  asks of the join overloads, which are not among the sources, that a join has SQL only
  when both of its sources have.
\<close>

theorem uncovered_projection_never_sql:
  assumes "containsUncoveredProjection throughJoins plan"
    and "throughJoins \<Longrightarrow> joinsPropagate env"
  shows "(toSql env plan = Inr None \<or> (\<exists>e. toSql env plan = Inl e)) \<and>
         (\<forall>nodeId names projections source i sourceSql.
            plan = ProjectNode nodeId names projections source \<and> i < length names \<and>
            \<not> coveredProjection (projections ! i) \<and>
            toSql env source = Inr (Some sourceSql) \<longrightarrow>
            (\<exists>e. toSql env plan = Inl e) \<and>
            ((\<forall>j<i. \<exists>p. projectionSql env (projections ! j) = Inr p) \<longrightarrow>
             toSql env plan = Inl (VeloxRuntimeError kNotImplemented [])))"
proof (intro conjI allI impI)
  show "toSql env plan = Inr None \<or> (\<exists>e. toSql env plan = Inl e)"
    by (rule not_sql_cases) (use no_sql_below [OF assms] in blast)
next
  fix nodeId names projections source i sourceSql
  assume a: "plan = ProjectNode nodeId names projections source \<and> i < length names \<and>
            \<not> coveredProjection (projections ! i) \<and>
            toSql env source = Inr (Some sourceSql)"
  from a toSqlProject_uncovered
         [where i = i and names = names and projections = projections and env = env and
            source = source and nodeId = nodeId]
  show "\<exists>e. toSql env plan = Inl e" by simp
  assume "\<forall>j<i. \<exists>p. projectionSql env (projections ! j) = Inr p"
  with a toSqlProject_uncovered
         [where i = i and names = names and projections = projections and env = env and
            source = source and nodeId = nodeId]
  show "toSql env plan = Inl (VeloxRuntimeError kNotImplemented [])" by simp
qed

theorem uncovered_projection_never_sql_witness:
  "containsUncoveredProjection True uncoveredBelowJoin \<and> joinsPropagate joiningSqlEnv \<and>
   toSql joiningSqlEnv uncoveredBelowJoin = Inl (VeloxRuntimeError kNotImplemented []) \<and>
   containsUncoveredProjection False uncoveredBelowDate \<and>
   toSql joiningSqlEnv uncoveredBelowDate = Inr None \<and>
   toSql joiningSqlEnv uncoveredProject = Inl (VeloxRuntimeError kNotImplemented [])"
proof -
  have c1: "containsUncoveredProjection True uncoveredBelowJoin"
    by (simp add: uncoveredBelowJoin_def uncoveredProject_def sampleLambda_def)
  have c2: "containsUncoveredProjection False uncoveredBelowDate"
    by (simp add: uncoveredBelowDate_def)
  have c3: "containsUncoveredProjection False uncoveredProject"
    by (simp add: uncoveredProject_def sampleLambda_def)
  have v: "toSql joiningSqlEnv sampleValues = Inr (Some ''t_0'')"
    by (simp add: joiningSqlEnv_def sampleValues_def sampleSqlEnv_def)
  have u: "\<not> coveredProjection ([sampleLambda] ! 0)" by (simp add: sampleLambda_def)
  have r1: "toSql joiningSqlEnv uncoveredBelowJoin =
              Inl (VeloxRuntimeError kNotImplemented [])" by code_simp
  have r2: "toSql joiningSqlEnv uncoveredBelowDate = Inr None" by code_simp
  from uncovered_projection_never_sql [OF c3 sample_joinsPropagate] v u
  have t3: "toSql joiningSqlEnv uncoveredProject = Inl (VeloxRuntimeError kNotImplemented [])"
    unfolding uncoveredProject_def by fastforce
  from uncovered_projection_never_sql [OF c1 sample_joinsPropagate]
    c1 c2 sample_joinsPropagate r1 r2 t3
  show ?thesis by simp
qed

theorem toSqlProject_uncovered_counterexample:
  "containsUncoveredProjection False uncoveredProject \<and>
   toSql sampleSqlEnv uncoveredProject \<noteq> Inr None"
  by (simp add: toSqlProject_def sampleSqlEnv_def VELOX_NYI_def sampleLambda_def
      sampleValues_def uncoveredProject_def)

subsection \<open>The row number column\<close>

text \<open>
  What the two overloads print for the name of the row number column: the RowNumber
  overload the fixed name \<^verbatim>\<open>row_number\<close>, the TopNRowNumber overload the last name of the
  node's output type when the node generates the row number.
\<close>

lemma toSqlRowNumber_fixed_name:
  assumes "toSql env (RowNumberNode nodeId partitionKeys limit t source) = Inr (Some sql)"
  shows "\<exists>before sourceSql.
           toSql env source = Inr (Some sourceSql) \<and>
           sql = before @ '') as row_number FROM '' @ sourceSql"
  using assms
  by (auto simp: toSqlRowNumber_def withSource_def Let_def
      split: if_splits sum.splits option.splits)

lemma toSqlTopNRowNumber_declared_name:
  assumes "toSql env (TopNRowNumberNode nodeId partitionKeys sortingKeys sortingOrders limit
                        t source) = Inr (Some sql)"
    and "generateRowNumber t source"
  shows "\<exists>before sourceSql.
           toSql env source = Inr (Some sourceSql) \<and>
           sql = before @ '') as '' @ nameOf t (length t - 1) @ '' FROM '' @ sourceSql @
                 '') '' @ '' where '' @ nameOf t (length t - 1) @ '' <= '' @ to_string limit"
  using assms
  by (auto simp: toSqlTopNRowNumber_def withSource_def Let_def
      split: if_splits sum.splits option.splits)

text \<open>
  C9, at a RowNumber node whose output type declares the row number column as \<^verbatim>\<open>rn\<close>:
  the SQL names the column \<^verbatim>\<open>row_number\<close>. The TopNRowNumber node with the same output type
  gets the declared name.
\<close>

theorem rowNumber_declared_name_example:
  "generateRowNumber [(''c0'', INTEGER), (''rn'', BIGINT)] sampleValues \<and>
   nameOf [(''c0'', INTEGER), (''rn'', BIGINT)]
     (length [(''c0'', INTEGER), (''rn'', BIGINT)] - 1) = ''rn'' \<and>
   toSql sampleSqlEnv
     (RowNumberNode ''1'' [] None [(''c0'', INTEGER), (''rn'', BIGINT)] sampleValues) =
     Inr (Some ''SELECT c0, row_number() OVER () as row_number FROM t_0'') \<and>
   toSql sampleSqlEnv
     (TopNRowNumberNode ''1'' [] [] [] 3 [(''c0'', INTEGER), (''rn'', BIGINT)] sampleValues) =
     Inr (Some
       ''SELECT * FROM (SELECT c0, row_number() OVER () as rn FROM t_0)  where rn <= 3'')"
  by (simp add: generateRowNumber_def nameOf_def sampleValues_def sampleSqlEnv_def
      toSqlRowNumber_def toSqlTopNRowNumber_def withSource_def inputColumnsSql_def
      partitionBySql_def orderBySql_def forEach_def appendComma_def to_string_def)

section \<open>Properties of the protocol client\<close>

lemma fetchNext_reply:
  assumes "repliesWith env (t @ [HttpGet uri]) r"
  shows "fetchNext env uri t =
           Some (Inr (response_text (cprRequest env (t @ [HttpGet uri]))), t @ [HttpGet uri])"
  using assms by (simp add: fetchNext_def checkStatus_def repliesWith_def Let_def)

lemma startQuery_reply:
  assumes "repliesWith env (t @ [statementRequest env sql session]) r" and "error r = None"
  shows "bindP (startQuery env sql session)
           (\<lambda>body. bindP (liftE (checkedResponse env body)) k) t =
         k r (t @ [statementRequest env sql session])"
  using assms
  by (simp add: bindP_def startQuery_def checkStatus_def repliesWith_def Let_def liftE_def
      checkedResponse_def throwIfFailed_def)

text \<open>
  The loop on a query that completes: it asks for the \<^verbatim>\<open>nextUri\<close> of every response but
  the last, and returns what it had with the pages of every response after it, in order.
\<close>

lemma pollLoop_completes:
  assumes "continues env t r rs"
    and "\<forall>x \<in> set rs. error x = None"
    and "\<forall>x \<in> set (r # rs). decodes env x"
    and "nextUri (last (r # rs)) = None"
  shows "pollLoop env r acc t =
           Some (Inr (acc @ concat (map (decodedPages env) (r # rs))),
                 t @ continuationRequests (butlast (r # rs)))"
  using assms
proof (induction rs arbitrary: r acc t)
  case Nil
  then obtain pages where p: "queryResults env r = Inr pages"
    by (auto simp: decodes_def split: sum.splits)
  with Nil show ?case
    by (subst pollLoop.simps)
       (simp add: queryCompleted_def decodedPages_def continuationRequests_def)
next
  case (Cons r' rs)
  from Cons.prems(3) obtain pages where p: "queryResults env r = Inr pages"
    by (auto simp: decodes_def split: sum.splits)
  from Cons.prems(1) obtain uri where u: "nextUri r = Some uri"
    and rep: "repliesWith env (t @ [HttpGet uri]) r'"
    and cont: "continues env (t @ [HttpGet uri]) r' rs"
    by (auto split: option.splits)
  from Cons.prems(2) have e: "error r' = None" by simp
  have c: "checkedResponse env (response_text (cprRequest env (t @ [HttpGet uri]))) = Inr r'"
    using rep e by (simp add: checkedResponse_def repliesWith_def throwIfFailed_def)
  have ih: "pollLoop env r' (acc @ pages) (t @ [HttpGet uri]) =
           Some (Inr ((acc @ pages) @ concat (map (decodedPages env) (r' # rs))),
                 (t @ [HttpGet uri]) @ continuationRequests (butlast (r' # rs)))"
    by (rule Cons.IH [OF cont]) (use Cons.prems in auto)
  show ?case
    by (subst pollLoop.simps)
       (simp add: p u fetchNext_reply [OF rep] c ih queryCompleted_def decodedPages_def
          continuationRequests_def)
qed

text \<open>
  The loop on a query that fails: it asks for the \<^verbatim>\<open>nextUri\<close> of every response before
  the one with the error, and throws on that one.
\<close>

lemma pollLoop_fails:
  assumes "continues env t r (rs @ [rerr])"
    and "\<forall>x \<in> set rs. error x = None"
    and "\<forall>x \<in> set (r # rs). decodes env x"
    and "error rerr = Some err"
  shows "pollLoop env r acc t =
           Some (Inl (VeloxRuntimeError kInvalidState
                        (''Presto query failed: '' @ to_string (errorCode err) @ '' '' @
                         message err)),
                 t @ continuationRequests (r # rs))"
  using assms
proof (induction rs arbitrary: r acc t)
  case Nil
  from Nil.prems(3) obtain pages where p: "queryResults env r = Inr pages"
    by (auto simp: decodes_def split: sum.splits)
  from Nil.prems(1) obtain uri where u: "nextUri r = Some uri"
    and rep: "repliesWith env (t @ [HttpGet uri]) rerr"
    by (auto split: option.splits)
  have c: "checkedResponse env (response_text (cprRequest env (t @ [HttpGet uri]))) =
             Inl (VeloxRuntimeError kInvalidState
                        (''Presto query failed: '' @ to_string (errorCode err) @ '' '' @
                         message err))"
    using rep Nil.prems(4)
    by (simp add: checkedResponse_def repliesWith_def throwIfFailed_def VELOX_FAIL_def)
  show ?case
    by (subst pollLoop.simps)
       (simp add: p u fetchNext_reply [OF rep] c queryCompleted_def continuationRequests_def)
next
  case (Cons r' rs)
  from Cons.prems(3) obtain pages where p: "queryResults env r = Inr pages"
    by (auto simp: decodes_def split: sum.splits)
  from Cons.prems(1) obtain uri where u: "nextUri r = Some uri"
    and rep: "repliesWith env (t @ [HttpGet uri]) r'"
    and cont: "continues env (t @ [HttpGet uri]) r' (rs @ [rerr])"
    by (auto split: option.splits)
  from Cons.prems(2) have e: "error r' = None" by simp
  have c: "checkedResponse env (response_text (cprRequest env (t @ [HttpGet uri]))) = Inr r'"
    using rep e by (simp add: checkedResponse_def repliesWith_def throwIfFailed_def)
  have ih: "pollLoop env r' (acc @ pages) (t @ [HttpGet uri]) =
           Some (Inl (VeloxRuntimeError kInvalidState
                        (''Presto query failed: '' @ to_string (errorCode err) @ '' '' @
                         message err)),
                 (t @ [HttpGet uri]) @ continuationRequests (r' # rs))"
    by (rule Cons.IH [OF cont]) (use Cons.prems in auto)
  show ?case
    by (subst pollLoop.simps)
       (simp add: p u fetchNext_reply [OF rep] c ih queryCompleted_def
          continuationRequests_def)
qed

lemma sample_replies:
  "repliesWith sampleEngine ([] @ [statementRequest sampleEngine ''SELECT * FROM t_0'' []])
     (dataResponse (Some ''q1'') [''a''])"
  "repliesWith sampleEngine ([] @ [statementRequest sampleEngine ''SELECT * FROM t_1'' []])
     (dataResponse (Some ''f1'') [''e''])"
  by (simp_all add: repliesWith_def sampleEngine_def statementRequest_def okReply_def
      sampleStatementBody_def sampleParse_def)

lemma sampleEngine_codec:
  "base64Decode sampleEngine p = Inr p"
  "deserialize sampleEngine rowType raw = Inr (sampleVector rowType raw)"
  "parseType sampleEngine ''varchar'' = Inr VARCHAR"
  by (simp_all add: sampleEngine_def)

lemma sample_mapE_decodePage:
  "mapE (decodePage sampleEngine rowType) ps = Inr (map (sampleVector rowType) ps)"
  by (induction ps) (simp_all add: decodePage_def sampleEngine_codec)

lemma sample_queryResults:
  "queryResults sampleEngine (dataResponse next pages) =
     Inr (map (sampleVector [(''c0'', VARCHAR)]) pages)"
  by (simp add: queryResults_def dataResponse_def sampleEngine_codec sample_mapE_decodePage)

lemma sample_decodes:
  "decodes sampleEngine (dataResponse next pages)"
  "decodedPages sampleEngine (dataResponse next pages) =
     map (sampleVector [(''c0'', VARCHAR)]) pages"
  by (simp_all add: decodes_def decodedPages_def sample_queryResults)

text \<open>
  C3. When the engine answers the statement and the continuation requests with N
  responses that carry a \<^verbatim>\<open>nextUri\<close> and then one that carries none, none of them with an
  error and all with pages that decode, \<^verbatim>\<open>execute(sql, sessionProperty)\<close> returns: after the
  statement it has sent exactly the N continuation requests, one for each \<^verbatim>\<open>nextUri\<close> in
  order, and its result is the decoded pages of all N + 1 responses, in order.
\<close>

theorem execute_accumulates_all_pages:
  assumes "repliesWith env (t @ [statementRequest env sql session]) r"
    and "continues env (t @ [statementRequest env sql session]) r rs"
    and "\<forall>x \<in> set (r # rs). error x = None \<and> decodes env x"
    and "nextUri (last (r # rs)) = None"
  shows "execute env sql session t =
           Some (Inr (concat (map (decodedPages env) (r # rs))),
                 t @ [statementRequest env sql session] @
                 continuationRequests (butlast (r # rs))) \<and>
         length (continuationRequests (butlast (r # rs))) = length rs"
proof -
  have e: "error r = None" using assms(3) by simp
  have "pollLoop env r [] (t @ [statementRequest env sql session]) =
           Some (Inr ([] @ concat (map (decodedPages env) (r # rs))),
                 (t @ [statementRequest env sql session]) @
                 continuationRequests (butlast (r # rs)))"
    by (rule pollLoop_completes [OF assms(2) _ _ assms(4)]) (use assms(3) in auto)
  then show ?thesis
    by (simp add: execute_def startQuery_reply [OF assms(1) e] continuationRequests_def)
qed

theorem execute_accumulates_all_pages_witness:
  "continues sampleEngine [statementRequest sampleEngine ''SELECT * FROM t_0'' []]
     (dataResponse (Some ''q1'') [''a''])
     [dataResponse (Some ''q2'') [''b'', ''c''], dataResponse None [''d'']] \<and>
   execute sampleEngine ''SELECT * FROM t_0'' [] [] =
     Some (Inr [sampleVector [(''c0'', VARCHAR)] ''a'', sampleVector [(''c0'', VARCHAR)] ''b'',
                sampleVector [(''c0'', VARCHAR)] ''c'', sampleVector [(''c0'', VARCHAR)] ''d''],
           [statementRequest sampleEngine ''SELECT * FROM t_0'' [], HttpGet ''q1'',
            HttpGet ''q2''])"
proof -
  let ?t = "[statementRequest sampleEngine ''SELECT * FROM t_0'' []]"
  let ?r = "dataResponse (Some ''q1'') [''a'']"
  let ?rs = "[dataResponse (Some ''q2'') [''b'', ''c''], dataResponse None [''d'']]"
  have h2: "continues sampleEngine ([] @ ?t) ?r ?rs"
    by (simp add: repliesWith_def sampleEngine_def statementRequest_def okReply_def
        sampleParse_def dataResponse_def)
  have h3: "\<forall>x \<in> set (?r # ?rs). error x = None \<and> decodes sampleEngine x"
    by (simp add: sample_decodes) (simp add: dataResponse_def)
  have h4: "nextUri (last (?r # ?rs)) = None"
    by (simp add: dataResponse_def)
  from execute_accumulates_all_pages [OF sample_replies(1) h2 h3 h4] h2
  show ?thesis
    by (simp add: sample_decodes continuationRequests_def) (simp add: dataResponse_def)
qed

text \<open>
  C4. When a response of the query carries an error, after responses that carry none and
  whose pages decode, \<^verbatim>\<open>execute(sql, sessionProperty)\<close> throws with the message
  \<^verbatim>\<open>Presto query failed: <errorCode> <message>\<close>. The last request it has sent is the one
  that response answers: it asks for no \<^verbatim>\<open>nextUri\<close> after it, that response's own
  included. Nothing is assumed of the pages of that response, so the outcome is the same
  whether or not they decode: they are not looked at.
\<close>

theorem execute_stops_at_error:
  assumes "repliesWith env (t @ [statementRequest env sql session]) (hd (good @ [rerr]))"
    and "continues env (t @ [statementRequest env sql session]) (hd (good @ [rerr]))
           (tl (good @ [rerr]))"
    and "\<forall>x \<in> set good. error x = None \<and> decodes env x"
    and "error rerr = Some err"
  shows "execute env sql session t =
           Some (Inl (VeloxRuntimeError kInvalidState
                        (''Presto query failed: '' @ to_string (errorCode err) @ '' '' @
                         message err)),
                 t @ [statementRequest env sql session] @ continuationRequests good)"
proof (cases good)
  case Nil
  with assms(1,4) show ?thesis
    by (simp add: execute_def bindP_def startQuery_def checkStatus_def repliesWith_def Let_def
        liftE_def checkedResponse_def throwIfFailed_def VELOX_FAIL_def continuationRequests_def)
next
  case (Cons r rs)
  from assms(1) Cons have rep: "repliesWith env (t @ [statementRequest env sql session]) r"
    by simp
  from assms(2) Cons
  have cont: "continues env (t @ [statementRequest env sql session]) r (rs @ [rerr])" by simp
  from assms(3) Cons have e: "error r = None" by simp
  have "pollLoop env r [] (t @ [statementRequest env sql session]) =
          Some (Inl (VeloxRuntimeError kInvalidState
                        (''Presto query failed: '' @ to_string (errorCode err) @ '' '' @
                         message err)),
                (t @ [statementRequest env sql session]) @ continuationRequests (r # rs))"
    by (rule pollLoop_fails [OF cont _ _ assms(4)]) (use assms(3) Cons in auto)
  with Cons show ?thesis
    by (simp add: execute_def startQuery_reply [OF rep e])
qed

theorem execute_stops_at_error_witness:
  "error failedResponse = Some \<lparr> errorCode = 8, message = ''Division by zero'' \<rparr> \<and>
   nextUri failedResponse = Some ''f2'' \<and>
   binaryData failedResponse = Some [''lost''] \<and>
   execute sampleEngine ''SELECT * FROM t_1'' [] [] =
     Some (Inl (VeloxRuntimeError kInvalidState ''Presto query failed: 8 Division by zero''),
           [statementRequest sampleEngine ''SELECT * FROM t_1'' [], HttpGet ''f1''])"
proof -
  let ?t = "[statementRequest sampleEngine ''SELECT * FROM t_1'' []]"
  let ?good = "[dataResponse (Some ''f1'') [''e'']]"
  have h1: "repliesWith sampleEngine ([] @ ?t) (hd (?good @ [failedResponse]))"
    using sample_replies(2) by simp
  have h2: "continues sampleEngine ([] @ ?t) (hd (?good @ [failedResponse]))
              (tl (?good @ [failedResponse]))"
    by (simp add: repliesWith_def sampleEngine_def statementRequest_def okReply_def
        sampleParse_def dataResponse_def)
  have h3: "\<forall>x \<in> set ?good. error x = None \<and> decodes sampleEngine x"
    by (simp add: sample_decodes) (simp add: dataResponse_def)
  have h4: "error failedResponse = Some \<lparr> errorCode = 8, message = ''Division by zero'' \<rparr>"
    by (simp add: failedResponse_def)
  from execute_stops_at_error [OF h1 h2 h3 h4] h4
  show ?thesis
    by (simp add: continuationRequests_def to_string_def)
       (simp add: dataResponse_def failedResponse_def)
qed

section \<open>Properties of the orchestrator\<close>

text \<open>
  C1. When the compiler has no SQL for a plan, \<^verbatim>\<open>executeAndReturnVector\<close> returns no
  vectors with the code \<^verbatim>\<open>kReferenceQueryUnsupported\<close>, and the trace it leaves is the one
  it started with: no request is sent and no file is written.
\<close>

theorem unsupported_plan_contacts_nothing:
  assumes "toSql senv plan = Inr None"
  shows "executeAndReturnVector senv env plan t =
           Some (Inr (None, kReferenceQueryUnsupported), t)"
  using assms by (simp add: executeAndReturnVector_def)

theorem unsupported_plan_contacts_nothing_witness:
  "toSql sampleSqlEnv
     (RowNumberNode ''1'' [] None [(''d'', DATE), (''row_number'', BIGINT)] dateValues) =
     Inr None \<and>
   executeAndReturnVector sampleSqlEnv sampleEngine
     (RowNumberNode ''1'' [] None [(''d'', DATE), (''row_number'', BIGINT)] dateValues) [] =
     Some (Inr (None, kReferenceQueryUnsupported), [])"
proof -
  have h: "toSql sampleSqlEnv
             (RowNumberNode ''1'' [] None [(''d'', DATE), (''row_number'', BIGINT)] dateValues) =
           Inr None"
    by (simp add: toSqlRowNumber_def sampleSqlEnv_def dateValues_def)
  from unsupported_plan_contacts_nothing [OF h, of sampleEngine "[]"] h
  show ?thesis by simp
qed

subsection \<open>The handlers\<close>



lemma sample_sql:
  "toSql sampleSqlEnv samplePlan = Inr (Some ''SELECT c0 as c0 FROM (t_0)'')"
  "toSql sampleSqlEnv failingPlan = Inr (Some ''SELECT c0 as c0 FROM (t_1)'')"
  by (simp_all add: samplePlan_def failingPlan_def sampleValues_def toSqlProject_def
      sampleSqlEnv_def appendComma_def)



lemma sample_tryBlock:
  "tryBlock sampleEngine samplePlan ''SELECT c0 as c0 FROM (t_0)'' [] =
     Some (Inr (map (sampleVector [(''c0'', VARCHAR)]) [''a'', ''b'', ''c'', ''d'']),
           sampleTableEffects sampleEngine ''t_0''
             [\<lparr> vectorType = [(''c0'', INTEGER)], vectorRows = [[VInt 1], [VInt 2]] \<rparr>] @
           [statementRequest sampleEngine ''SELECT c0 as c0 FROM (t_0)'' [], HttpGet ''q1'',
            HttpGet ''q2''])"
  by code_simp







subsection \<open>execute(plan)\<close>

text \<open>
  C10. \<^verbatim>\<open>execute(plan)\<close> returns when \<^verbatim>\<open>executeAndReturnVector(plan)\<close> does, with the same
  trace, throws what it throws, and otherwise returns the same code; its first component
  is present exactly when the vectors are, and is then the multiset of their rows.
\<close>

theorem executePlan_refines_executeAndReturnVector:
  "executePlan senv env plan t =
     (case executeAndReturnVector senv env plan t of
        None \<Rightarrow> None
      | Some (Inl e, t') \<Rightarrow> Some (Inl e, t')
      | Some (Inr (vectors, code), t') \<Rightarrow>
          Some (Inr (map_option materialize vectors, code), t'))"
  by (simp add: executePlan_def bindP_def returnP_def
      split: option.splits sum.splits prod.splits)

theorem executePlan_refines_executeAndReturnVector_witness:
  "executeAndReturnVector sampleSqlEnv sampleEngine samplePlan [] =
     Some (Inr (Some (map (sampleVector [(''c0'', VARCHAR)]) [''a'', ''b'', ''c'', ''d'']),
                kSuccess),
           sampleTableEffects sampleEngine ''t_0''
             [\<lparr> vectorType = [(''c0'', INTEGER)], vectorRows = [[VInt 1], [VInt 2]] \<rparr>] @
           [statementRequest sampleEngine ''SELECT c0 as c0 FROM (t_0)'' [], HttpGet ''q1'',
            HttpGet ''q2'']) \<and>
   executePlan sampleSqlEnv sampleEngine samplePlan [] =
     Some (Inr (Some {#[VText ''a''], [VText ''b''], [VText ''c''], [VText ''d'']#}, kSuccess),
           sampleTableEffects sampleEngine ''t_0''
             [\<lparr> vectorType = [(''c0'', INTEGER)], vectorRows = [[VInt 1], [VInt 2]] \<rparr>] @
           [statementRequest sampleEngine ''SELECT c0 as c0 FROM (t_0)'' [], HttpGet ''q1'',
            HttpGet ''q2''])"
proof -
  have v: "executeAndReturnVector sampleSqlEnv sampleEngine samplePlan [] =
     Some (Inr (Some (map (sampleVector [(''c0'', VARCHAR)]) [''a'', ''b'', ''c'', ''d'']),
                kSuccess),
           sampleTableEffects sampleEngine ''t_0''
             [\<lparr> vectorType = [(''c0'', INTEGER)], vectorRows = [[VInt 1], [VInt 2]] \<rparr>] @
           [statementRequest sampleEngine ''SELECT c0 as c0 FROM (t_0)'' [], HttpGet ''q1'',
            HttpGet ''q2''])"
    by (simp add: executeAndReturnVector_def sample_sql(1) sample_tryBlock)
  have m: "materialize (map (sampleVector [(''c0'', VARCHAR)]) [''a'', ''b'', ''c'', ''d'']) =
             {#[VText ''a''], [VText ''b''], [VText ''c''], [VText ''d'']#}"
    by (simp add: materialize_def sampleVector_def)
  from executePlan_refines_executeAndReturnVector
         [of sampleSqlEnv sampleEngine samplePlan "[]"] v m
  show ?thesis by simp
qed

end
